theory Spec2Isabelle
  imports Main "HOL-Library.Sublist"
begin

section \<open>JavaScript values used by the handlers\<close>

text \<open>
  Request-body fields are read by destructuring (\<^verbatim>\<open>const { filename, question } = req.body\<close>)
  and tested with \<^verbatim>\<open>!field\<close>. A field is modelled as a \<open>string option\<close>: \<open>None\<close> is an
  absent field, and the empty string is falsy as in JavaScript.
\<close>

definition present :: "string option \<Rightarrow> string option" where
  "present v = (case v of None \<Rightarrow> None | Some s \<Rightarrow> if s = [] then None else Some s)"

definition truthy :: "string option \<Rightarrow> bool" where
  "truthy v = (case v of None \<Rightarrow> False | Some s \<Rightarrow> s \<noteq> [])"

text \<open>\<^verbatim>\<open>error.message || fallback\<close>: the fallback is taken for an empty message.\<close>

definition message_or :: "string \<Rightarrow> string \<Rightarrow> string" where
  "message_or m fallback = (if m = [] then fallback else m)"

text \<open>
  \<^verbatim>\<open>Array.prototype.slice(start)\<close> with one argument: a negative start counts from the
  end and is clamped at 0, a positive start is clamped at the length.
\<close>

definition slice :: "int \<Rightarrow> 'a list \<Rightarrow> 'a list" where
  "slice start xs =
     (let n = int (length xs);
          k = (if start < 0 then max (n + start) 0 else min start n)
      in drop (nat k) xs)"

section \<open>Chat history (videoController.chatWithVideo, aiController.generateResponse)\<close>

record chat_message =
  msg_text :: string
  msg_sender :: string
  msg_timestamp :: string

record history_entry =
  role :: string
  parts :: string

text \<open>The mapping both controllers apply to a message: \<^verbatim>\<open>msg.sender === 'user' ? 'user' : 'model'\<close>.\<close>

definition formatMessage :: "chat_message \<Rightarrow> history_entry" where
  "formatMessage msg =
     \<lparr>role = (if msg_sender msg = ''user'' then ''user'' else ''model''), parts = msg_text msg\<rparr>"

text \<open>
  videoController.chatWithVideo, the \<^verbatim>\<open>recentHistory\<close> constant:
  \<^verbatim>\<open>(chatHistory || []).filter(msg => msg.sender !== 'system').slice(-5).map(...)\<close>.
\<close>

definition recentHistory :: "chat_message list option \<Rightarrow> history_entry list" where
  "recentHistory chatHistory =
     map formatMessage
       (slice (-5)
          (filter (\<lambda>msg. msg_sender msg \<noteq> ''system'')
             (case chatHistory of None \<Rightarrow> [] | Some h \<Rightarrow> h)))"

text \<open>
  aiController.generateResponse, the \<^verbatim>\<open>formattedHistory\<close> constant:
  \<^verbatim>\<open>chatHistory?.map(...) || []\<close>. Nothing is filtered and nothing is cut.
\<close>

definition formattedHistory :: "chat_message list option \<Rightarrow> history_entry list" where
  "formattedHistory chatHistory =
     (case chatHistory of None \<Rightarrow> [] | Some h \<Rightarrow> map formatMessage h)"

section \<open>Node.js library functions\<close>

text \<open>
  Strings are byte lists. The functions below stand for library functions the
  controllers call; they follow Node's documentation for POSIX paths.
\<close>

definition newline :: string where
  "newline = [CHR 0x0A]"

definition quote :: string where
  "quote = [CHR 0x27]"

text \<open>\<^verbatim>\<open>Array.prototype.join(sep)\<close> on strings.\<close>

fun join :: "string \<Rightarrow> string list \<Rightarrow> string" where
  "join sep [] = []"
| "join sep [x] = x"
| "join sep (x # y # ys) = x @ sep @ join sep (y # ys)"

text \<open>Number to string, as in \<^verbatim>\<open>Date.now() + '-' + n\<close>, for a non-negative integer.\<close>

definition digit :: "nat \<Rightarrow> char" where
  "digit d = ''0123456789'' ! d"

function decimal :: "nat \<Rightarrow> string" where
  "decimal n = (if n < 10 then [digit n] else decimal (n div 10) @ [digit (n mod 10)])"
  by pat_completeness auto
termination
  by (relation "measure id") auto

declare decimal.simps [simp del]

text \<open>\<^verbatim>\<open>String.prototype.toLowerCase\<close> on the ASCII letters.\<close>

definition lowerChar :: "char \<Rightarrow> char" where
  "lowerChar c =
     (let n = (of_char c :: nat) in if 65 \<le> n \<and> n \<le> 90 then char_of (n + 32) else c)"

definition toLowerCase :: "string \<Rightarrow> string" where
  "toLowerCase s = map lowerChar s"

text \<open>
  The last component of a path, trailing separators dropped: \<^verbatim>\<open>path.basename(p)\<close>
  with one argument.
\<close>

definition basename :: "string \<Rightarrow> string" where
  "basename p =
     rev (takeWhile (\<lambda>c. c \<noteq> CHR ''/'') (dropWhile (\<lambda>c. c = CHR ''/'') (rev p)))"

text \<open>
  \<^verbatim>\<open>path.extname(p)\<close>: from the last dot of the last component to its end; empty when
  the component has no dot, when its only dot is its first character, or when it is \<open>..\<close>.
\<close>

definition extname :: "string \<Rightarrow> string" where
  "extname p =
     (let b = basename p;
          e = rev (takeWhile (\<lambda>c. c \<noteq> CHR ''.'') (rev b))
      in if CHR ''.'' \<notin> set b then []
         else if Suc (length e) = length b then []
         else if b = ''..'' then []
         else CHR ''.'' # e)"

text \<open>\<^verbatim>\<open>String.prototype.startsWith\<close>.\<close>

definition startsWith :: "string \<Rightarrow> string \<Rightarrow> bool" where
  "startsWith s pre = (take (length pre) s = pre)"

section \<open>The server's environment\<close>

type_synonym bytes = string

text \<open>
  The file system as the \<^verbatim>\<open>fs\<close> calls see it: a path is absent, a regular file with
  its content, or a directory (with the size \<^verbatim>\<open>statSync\<close> reports), which exists but
  cannot be read as a file.
\<close>

datatype fs_entry = File bytes | Directory nat

record env =
  GOOGLE_AI_KEY :: "string option"
  GEMINI_API_KEY :: "string option"
  files :: "string \<Rightarrow> fs_entry option"
  uploadsDir :: string
  uploadPath :: "string \<Rightarrow> string"
  now :: nat
  random :: nat

text \<open>
  \<open>uploadsDir\<close> is \<^verbatim>\<open>path.join(__dirname, '../../uploads')\<close>, \<open>uploadPath name\<close> is
  \<^verbatim>\<open>path.join(__dirname, '../../uploads', name)\<close>, \<open>now\<close> is the clock
  (\<^verbatim>\<open>Date.now()\<close>, \<^verbatim>\<open>new Date()\<close>) and \<open>random\<close> is
  \<^verbatim>\<open>Math.round(Math.random() * 1E9)\<close>.
\<close>

definition existsSync :: "env \<Rightarrow> string \<Rightarrow> bool" where
  "existsSync e p = (files e p \<noteq> None)"

definition statSize :: "fs_entry \<Rightarrow> nat" where
  "statSize x = (case x of File b \<Rightarrow> length b | Directory n \<Rightarrow> n)"

definition readFileSync :: "fs_entry \<Rightarrow> string + bytes" where
  "readFileSync x =
     (case x of File b \<Rightarrow> Inr b
      | Directory n \<Rightarrow> Inl ''EISDIR: illegal operation on a directory, read'')"

section \<open>The provider (Gemini) as the controllers use it\<close>

record remote_file =
  rf_name :: string
  rf_uri :: string
  rf_mimeType :: string
  rf_state :: string

datatype part = InlineData bytes string | FileData string string | Text string

text \<open>
  \<open>InlineData b m\<close> is \<^verbatim>\<open>{inlineData: {data, mimeType: m}}\<close> where \<open>data\<close> is the
  base64 text of the bytes \<open>b\<close>; \<open>FileData u m\<close> is
  \<^verbatim>\<open>{fileData: {fileUri: u, mimeType: m}}\<close>.

  A provider call either throws (\<open>Inl\<close> the error's message) or returns.
  \<open>uploadFile\<close> returns \<open>None\<close> for a response without a file; \<open>getFile name k\<close> is
  the answer to the request's k-th \<^verbatim>\<open>getFile\<close> call, counted from 0;
  \<open>generateContent key model parts\<close>, called on the model \<open>model\<close> of a client built
  with the API key \<open>key\<close>, returns \<open>None\<close> for a result without a response and
  otherwise the response's text; \<open>deleteFile\<close> returns the message of the error it
  throws, if any.
\<close>

record provider =
  uploadFile :: "bytes \<Rightarrow> string \<Rightarrow> string \<Rightarrow> string + remote_file option"
  getFile :: "string \<Rightarrow> nat \<Rightarrow> string + remote_file"
  generateContent :: "string option \<Rightarrow> string \<Rightarrow> part list \<Rightarrow> string + string option"
  deleteFile :: "string \<Rightarrow> string option"

text \<open>What a handler does besides answering: provider calls, waits and warnings, in order.\<close>

datatype event =
    UploadFile bytes string string
  | GetFile string
  | Sleep nat
  | GenerateContent "string option" string "part list"
  | DeleteFile string
  | Warn string

section \<open>HTTP responses\<close>

record file_info =
  fi_filename :: string
  fi_path :: string
  fi_size :: nat
  fi_mimetype :: string

record analysis_info =
  an_text :: string
  an_videoUri :: "string option"
  an_timestamp :: nat
  an_type :: "string option"

record reply_info =
  rp_text :: string
  rp_timestamp :: nat
  rp_type :: "string option"

text \<open>
  \<open>Failure msg\<close> is \<^verbatim>\<open>{success: false, error: msg}\<close>; the other bodies are
  \<^verbatim>\<open>{success: true, file}\<close>, \<^verbatim>\<open>{success: true, analysis}\<close> and
  \<^verbatim>\<open>{success: true, response}\<close>.
\<close>

datatype body =
    Failure string
  | UploadOk file_info
  | AnalysisOk analysis_info
  | ReplyOk reply_info

record response =
  status :: nat
  body :: body

definition respond :: "nat \<Rightarrow> body \<Rightarrow> response" where
  "respond code b = \<lparr>status = code, body = b\<rparr>"

section \<open>aiController.js\<close>

text \<open>
  The module's initialisation: \<^verbatim>\<open>genAI\<close> and \<^verbatim>\<open>fileManager\<close> are set exactly when
  \<^verbatim>\<open>process.env.GOOGLE_AI_KEY\<close> is truthy; otherwise the error is logged and both
  stay undefined.
\<close>

definition initialized :: "env \<Rightarrow> bool" where
  "initialized e = truthy (GOOGLE_AI_KEY e)"

definition aiMimeType :: "string \<Rightarrow> string" where
  "aiMimeType videoPath =
     (let ext = toLowerCase (extname videoPath)
      in if ext = ''.mp4'' then ''video/mp4''
         else if ext = ''.webm'' then ''video/webm''
         else if ext = ''.mov'' then ''video/quicktime''
         else if ext = ''.avi'' then ''video/x-msvideo''
         else ''video/mp4'')"

definition maxAttempts :: nat where
  "maxAttempts = 30"

definition pollInterval :: nat where
  "pollInterval = 2000"

text \<open>
  The wait loop of analyzeVideoContent:
  \<^verbatim>\<open>while (file.state === 'PROCESSING' && attempts < maxAttempts)\<close>, each round
  sleeping, reading the file again and counting the attempt. The first
  \<^verbatim>\<open>getFile\<close> (call 0) is made before the loop, so the round that starts with
  \<open>attempts\<close> makes call \<open>attempts + 1\<close>. A \<^verbatim>\<open>getFile\<close> that throws leaves the loop.
\<close>

function waitForProcessing ::
  "provider \<Rightarrow> string \<Rightarrow> remote_file \<Rightarrow> nat \<Rightarrow> event list
     \<Rightarrow> (string + remote_file \<times> nat) \<times> event list" where
  "waitForProcessing p name file attempts tr =
     (if rf_state file = ''PROCESSING'' \<and> attempts < maxAttempts then
        (case getFile p name (attempts + 1) of
           Inl err \<Rightarrow> (Inl err, tr @ [Sleep pollInterval, GetFile name])
         | Inr file' \<Rightarrow>
             waitForProcessing p name file' (attempts + 1)
               (tr @ [Sleep pollInterval, GetFile name]))
      else (Inr (file, attempts), tr))"
  by pat_completeness auto
termination
  by (relation "measure (\<lambda>(p, name, file, attempts, tr). maxAttempts - attempts)") auto

declare waitForProcessing.simps [simp del]

definition aiModel :: string where
  "aiModel = ''gemini-1.5-pro''"

definition analysisPrompt :: string where
  "analysisPrompt =
     ''Analyze this video and provide:'' @ newline @
     ''      1. A brief summary of what the video shows (2-3 sentences)'' @ newline @
     ''      2. Main topics or subjects covered (bullet points)'' @ newline @
     ''      3. Key moments with timestamps in MM:SS format (chronological order)'' @ newline @
     ''      4. Any technical concepts or important details mentioned'' @ newline @
     ''      5. Notable visual elements or scenes described'' @ newline @
     newline @
     ''      Format the response in a clear, structured way with headings.'' @ newline @
     ''      Be specific and detailed but concise.''"

text \<open>
  The inner \<^verbatim>\<open>try\<close> block of analyzeVideoContent: upload, wait, generate, clean up.
  \<open>Inl\<close> is the message of the error the block throws (before the inner
  \<^verbatim>\<open>catch\<close> wraps it).
\<close>

definition geminiAnalyze ::
  "env \<Rightarrow> provider \<Rightarrow> bytes \<Rightarrow> string \<Rightarrow> string \<Rightarrow> (string + analysis_info) \<times> event list" where
  "geminiAnalyze e p fileBuffer mimeType displayName =
     (let trace = [UploadFile fileBuffer mimeType displayName] in
      case uploadFile p fileBuffer mimeType displayName of
        Inl err \<Rightarrow> (Inl err, trace)
      | Inr None \<Rightarrow> (Inl ''Failed to get upload response from Gemini'', trace)
      | Inr (Some uploaded) \<Rightarrow>
          (let name = rf_name uploaded; tr1 = trace @ [GetFile name] in
           case getFile p name 0 of
             Inl err \<Rightarrow> (Inl err, tr1)
           | Inr file0 \<Rightarrow>
               (case waitForProcessing p name file0 0 tr1 of
                  (Inl err, tr2) \<Rightarrow> (Inl err, tr2)
                | (Inr (file, attempts), tr2) \<Rightarrow>
                    if rf_state file \<noteq> ''ACTIVE'' then
                      (Inl (''Video processing failed - State: '' @ rf_state file), tr2)
                    else
                      (let parts = [FileData (rf_uri file) (rf_mimeType file), Text analysisPrompt];
                           tr3 = tr2 @ [GenerateContent (GOOGLE_AI_KEY e) aiModel parts] in
                       case generateContent p (GOOGLE_AI_KEY e) aiModel parts of
                         Inl err \<Rightarrow> (Inl err, tr3)
                       | Inr None \<Rightarrow> (Inl ''No response from Gemini API'', tr3)
                       | Inr (Some analysis) \<Rightarrow>
                           (let tr4 = tr3 @ [DeleteFile (rf_name file)] @
                                  (case deleteFile p (rf_name file) of
                                     None \<Rightarrow> []
                                   | Some cleanupError \<Rightarrow> [Warn cleanupError])
                            in (Inr \<lparr>an_text = analysis, an_videoUri = Some (rf_uri file),
                                     an_timestamp = now e, an_type = Some ''initial-analysis''\<rparr>,
                                tr4))))))"

text \<open>POST /api/ai/analyze, body \<^verbatim>\<open>{videoPath}\<close>.\<close>

definition analyzeVideoContent ::
  "env \<Rightarrow> provider \<Rightarrow> string option \<Rightarrow> response \<times> event list" where
  "analyzeVideoContent e p videoPath =
     (if \<not> initialized e then
        (respond 500
           (Failure (message_or ''Gemini API not properly initialized'' ''Video analysis failed'')),
         [])
      else case present videoPath of
        None \<Rightarrow> (respond 400 (Failure ''Video path is required''), [])
      | Some path \<Rightarrow>
          (case files e path of
             None \<Rightarrow> (respond 400 (Failure ''Video file not found or not accessible''), [])
           | Some entry \<Rightarrow>
               if statSize entry = 0 then (respond 400 (Failure ''Video file is empty''), [])
               else
                 (case readFileSync entry of
                    Inl err \<Rightarrow> (respond 500 (Failure (message_or err ''Video analysis failed'')), [])
                  | Inr fileBuffer \<Rightarrow>
                      (case geminiAnalyze e p fileBuffer (aiMimeType path) (basename path) of
                         (Inl err, tr) \<Rightarrow>
                           (respond 500
                              (Failure (message_or (''Gemini API Error: '' @ err)
                                          ''Video analysis failed'')), tr)
                       | (Inr analysis, tr) \<Rightarrow> (respond 200 (AnalysisOk analysis), tr)))))"

text \<open>The JSON body of a chat request; both chat handlers read their fields from it.\<close>

record chat_body =
  cb_filename :: "string option"
  cb_videoUri :: "string option"
  cb_question :: "string option"
  cb_chatHistory :: "chat_message list option"

definition chatPrompt :: "string \<Rightarrow> history_entry list \<Rightarrow> string" where
  "chatPrompt question history =
     ''Based on the video content, answer this question: '' @ question @ newline @
     newline @
     ''      Consider:'' @ newline @
     ''      - If a timestamp (MM:SS) is mentioned, focus on that specific moment'' @ newline @
     ''      - For technical questions, provide clear, detailed explanations'' @ newline @
     ''      - For visual questions, describe what is shown in detail'' @ newline @
     ''      - For summaries, focus on key points and maintain context'' @ newline @
     ''      '' @ newline @
     ''      Previous conversation:'' @ newline @
     ''      '' @ join newline (map (\<lambda>msg. role msg @ '': '' @ parts msg) history) @ newline @
     newline @
     ''      Provide a clear, direct answer that specifically addresses the question.''"

text \<open>POST /api/ai/chat, body \<^verbatim>\<open>{question, videoUri, chatHistory}\<close>.\<close>

definition generateResponse :: "env \<Rightarrow> provider \<Rightarrow> chat_body \<Rightarrow> response \<times> event list" where
  "generateResponse e p b =
     (if \<not> initialized e then
        (respond 500
           (Failure (message_or ''Gemini API not properly initialized''
                       ''Failed to generate response'')), [])
      else case present (cb_videoUri b) of
        None \<Rightarrow> (respond 400 (Failure ''Video URI is required''), [])
      | Some videoUri \<Rightarrow>
          (case present (cb_question b) of
             None \<Rightarrow> (respond 400 (Failure ''Question is required''), [])
           | Some question \<Rightarrow>
               (let history = formattedHistory (cb_chatHistory b);
                    parts = [FileData videoUri ''video/mp4'', Text (chatPrompt question history)];
                    tr = [GenerateContent (GOOGLE_AI_KEY e) aiModel parts] in
                case generateContent p (GOOGLE_AI_KEY e) aiModel parts of
                  Inl err \<Rightarrow>
                    (respond 500
                       (Failure (message_or (''Gemini API Error: '' @ err)
                                   ''Failed to generate response'')), tr)
                | Inr None \<Rightarrow>
                    (respond 500
                       (Failure (message_or (''Gemini API Error: '' @ ''No response from Gemini API'')
                                   ''Failed to generate response'')), tr)
                | Inr (Some text) \<Rightarrow>
                    (respond 200
                       (ReplyOk \<lparr>rp_text = text, rp_timestamp = now e,
                                 rp_type = Some ''chat-response''\<rparr>), tr))))"

section \<open>videoController.js\<close>

text \<open>
  The module builds its client with \<^verbatim>\<open>new GoogleGenerativeAI(process.env.GEMINI_API_KEY)\<close>
  and never tests the key; the handlers pass it on to the provider as it is.
\<close>

definition videoModel :: string where
  "videoModel = ''gemini-1.5-flash''"

text \<open>
  The multipart field \<^verbatim>\<open>video\<close> of an upload request, as multer hands it to the
  file filter and the storage engine.
\<close>

record upload_file =
  originalname :: string
  mimetype :: string
  content :: bytes

definition allowedTypes :: "string list" where
  "allowedTypes = [''video/mp4'', ''video/webm'', ''video/quicktime'']"

definition fileSizeLimit :: nat where
  "fileSizeLimit = 25 * 1024 * 1024"

text \<open>The \<^verbatim>\<open>filename\<close> callback of the disk storage.\<close>

definition storageFilename :: "env \<Rightarrow> upload_file \<Rightarrow> string" where
  "storageFilename e file =
     (let uniqueName = decimal (now e) @ ''-'' @ decimal (random e)
      in uniqueName @ extname (originalname file))"

text \<open>The \<^verbatim>\<open>destination\<close> callback: the uploads directory is created when absent.\<close>

definition ensureUploadsDir :: "env \<Rightarrow> env" where
  "ensureUploadsDir e =
     (if existsSync e (uploadsDir e) then e
      else e\<lparr>files := (files e)(uploadsDir e \<mapsto> Directory 0)\<rparr>)"

text \<open>
  Opening the write stream for an upload at \<open>path\<close>: the error the stream emits, if
  any. The stream opens when the uploads path is a directory and \<open>path\<close> is not one;
  when the uploads path is a regular file (so that the \<^verbatim>\<open>destination\<close> callback
  found it and made no directory) the open fails. Other input/output failures (a full
  disk, missing permissions) are outside this model.
\<close>

definition openError :: "env \<Rightarrow> string \<Rightarrow> string option" where
  "openError e path =
     (case files e (uploadsDir e) of
        None \<Rightarrow> Some (''ENOENT: no such file or directory, open '' @ quote @ path @ quote)
      | Some (File b) \<Rightarrow> Some (''ENOTDIR: not a directory, open '' @ quote @ path @ quote)
      | Some (Directory n) \<Rightarrow>
          (case files e path of
             Some (Directory m) \<Rightarrow>
               Some (''EISDIR: illegal operation on a directory, open '' @ quote @ path @ quote)
           | _ \<Rightarrow> None))"

text \<open>
  multer's \<^verbatim>\<open>single('video')\<close> with the configured filter, storage and limits: the
  filter is asked first; an accepted file is streamed to the destination under the
  generated name; a write stream that cannot be opened fails the upload with its
  error; a file longer than \<^verbatim>\<open>limits.fileSize\<close> is removed again and the upload
  fails with multer's error. \<open>Inr None\<close> is a request without the field.
\<close>

definition upload :: "env \<Rightarrow> upload_file option \<Rightarrow> (string + file_info option) \<times> env" where
  "upload e req =
     (case req of
        None \<Rightarrow> (Inr None, e)
      | Some file \<Rightarrow>
          if mimetype file \<notin> set allowedTypes then
            (Inl ''Only MP4, WebM and MOV video files are allowed'', e)
          else
            (let e1 = ensureUploadsDir e;
                 filename = storageFilename e file;
                 path = uploadPath e filename in
             case openError e1 path of
               Some err \<Rightarrow> (Inl err, e1)
             | None \<Rightarrow>
                 if length (content file) > fileSizeLimit then (Inl ''File too large'', e1)
                 else
                   (Inr (Some \<lparr>fi_filename = filename, fi_path = path,
                                 fi_size = length (content file), fi_mimetype = mimetype file\<rparr>),
                    e1\<lparr>files := (files e1)(path \<mapsto> File (content file))\<rparr>)))"

text \<open>POST /api/video/upload.\<close>

definition uploadVideo :: "env \<Rightarrow> upload_file option \<Rightarrow> response \<times> env" where
  "uploadVideo e req =
     (case upload e req of
        (Inl err, e') \<Rightarrow> (respond 400 (Failure (message_or err ''Failed to upload video'')), e')
      | (Inr None, e') \<Rightarrow>
          (respond 400 (Failure (message_or ''No video file uploaded'' ''Failed to upload video'')), e')
      | (Inr (Some info), e') \<Rightarrow> (respond 200 (UploadOk info), e'))"

definition videoMimeType :: "string \<Rightarrow> string" where
  "videoMimeType videoPath =
     (let ext = toLowerCase (extname videoPath)
      in if ext = ''.mp4'' then ''video/mp4''
         else if ext = ''.webm'' then ''video/webm''
         else ''video/quicktime'')"

text \<open>POST /api/video/analyze, body \<^verbatim>\<open>{filename, prompt}\<close>.\<close>

definition analyzeVideo ::
  "env \<Rightarrow> provider \<Rightarrow> string option \<Rightarrow> string option \<Rightarrow> response \<times> event list" where
  "analyzeVideo e p filename prompt =
     (let fail = (\<lambda>err. respond 500 (Failure (message_or err ''Failed to analyze video''))) in
      case (present filename, present prompt) of
        (Some name, Some promptText) \<Rightarrow>
          (let videoPath = uploadPath e name in
           case files e videoPath of
             None \<Rightarrow> (fail ''Video file not found'', [])
           | Some entry \<Rightarrow>
               (case readFileSync entry of
                  Inl err \<Rightarrow> (fail err, [])
                | Inr video \<Rightarrow>
                    (let parts = [InlineData video (videoMimeType videoPath), Text promptText];
                         tr = [GenerateContent (GEMINI_API_KEY e) videoModel parts] in
                     case generateContent p (GEMINI_API_KEY e) videoModel parts of
                       Inl err \<Rightarrow> (fail err, tr)
                     | Inr None \<Rightarrow> (fail ''No response from AI model'', tr)
                     | Inr (Some text) \<Rightarrow>
                         (respond 200
                            (AnalysisOk \<lparr>an_text = text, an_videoUri = None,
                                         an_timestamp = now e, an_type = None\<rparr>), tr))))
      | _ \<Rightarrow> (fail ''Video filename and prompt are required'', []))"

definition chatSuffix :: string where
  "chatSuffix = newline @ newline @ ''Based on the video content, provide a clear and direct answer.''"

text \<open>
  POST /api/video/chat, body \<^verbatim>\<open>{filename, question, chatHistory}\<close>. The handler
  binds \<^verbatim>\<open>recentHistory\<close> and then builds the provider request from the video and the
  question.
\<close>

definition chatWithVideo :: "env \<Rightarrow> provider \<Rightarrow> chat_body \<Rightarrow> response \<times> event list" where
  "chatWithVideo e p b =
     (let fail = (\<lambda>err. respond 500 (Failure (message_or err ''Failed to process chat request''))) in
      case (present (cb_filename b), present (cb_question b)) of
        (Some name, Some question) \<Rightarrow>
          (let videoPath = uploadPath e name in
           case files e videoPath of
             None \<Rightarrow> (fail ''Video file not found'', [])
           | Some entry \<Rightarrow>
               (case readFileSync entry of
                  Inl err \<Rightarrow> (fail err, [])
                | Inr video \<Rightarrow>
                    (let recent = recentHistory (cb_chatHistory b);
                         parts = [InlineData video ''video/mp4'', Text (question @ chatSuffix)];
                         tr = [GenerateContent (GEMINI_API_KEY e) videoModel parts] in
                     case generateContent p (GEMINI_API_KEY e) videoModel parts of
                       Inl err \<Rightarrow> (fail err, tr)
                     | Inr None \<Rightarrow> (fail ''No response from AI model'', tr)
                     | Inr (Some text) \<Rightarrow>
                         (respond 200
                            (ReplyOk \<lparr>rp_text = text, rp_timestamp = now e, rp_type = None\<rparr>),
                          tr))))
      | _ \<Rightarrow> (fail ''Video filename and question are required'', []))"

section \<open>The client (App.jsx)\<close>

text \<open>
  Values parsed from a JSON response, with \<open>JUndefined\<close> for a property that is not
  there. Arrays do not occur in the server's responses and are left out.
\<close>

datatype json =
    JUndefined
  | JNull
  | JBool bool
  | JNum int
  | JStr string
  | JObj "(string \<times> json) list"

text \<open>
  Reading a property, \<^verbatim>\<open>v.k\<close>: a TypeError on \<^verbatim>\<open>undefined\<close> and \<^verbatim>\<open>null\<close> (\<open>Inl\<close>
  its message, in V8's wording), the field or \<^verbatim>\<open>undefined\<close> on an object, and
  \<^verbatim>\<open>undefined\<close> on the other values for the property names the client reads.
\<close>

fun getProp :: "json \<Rightarrow> string \<Rightarrow> string + json" where
  "getProp JUndefined k =
     Inl (''Cannot read properties of undefined (reading '' @ quote @ k @ quote @ '')'')"
| "getProp JNull k =
     Inl (''Cannot read properties of null (reading '' @ quote @ k @ quote @ '')'')"
| "getProp (JObj props) k = Inr (case map_of props k of None \<Rightarrow> JUndefined | Some v \<Rightarrow> v)"
| "getProp v k = Inr JUndefined"

fun jsTruthy :: "json \<Rightarrow> bool" where
  "jsTruthy JUndefined = False"
| "jsTruthy JNull = False"
| "jsTruthy (JBool b) = b"
| "jsTruthy (JNum n) = (n \<noteq> 0)"
| "jsTruthy (JStr s) = (s \<noteq> [])"
| "jsTruthy (JObj props) = True"

text \<open>\<^verbatim>\<open>String(v)\<close>, which gives the message of \<^verbatim>\<open>new Error(v)\<close>.\<close>

fun jsToString :: "json \<Rightarrow> string" where
  "jsToString JUndefined = ''undefined''"
| "jsToString JNull = ''null''"
| "jsToString (JBool b) = (if b then ''true'' else ''false'')"
| "jsToString (JNum n) = (if n < 0 then ''-'' @ decimal (nat (- n)) else decimal (nat n))"
| "jsToString (JStr s) = s"
| "jsToString (JObj props) = ''[object Object]''"

record ui_message =
  ui_text :: json
  ui_sender :: string
  ui_timestamp :: string

record client_state =
  messages :: "ui_message list"
  newMessage :: string
  selectedVideo :: "string option"
  isAnalyzing :: bool
  isDragging :: bool
  uploadProgress :: nat
  uploadStatus :: string

record browser_file =
  bf_name :: string
  bf_size :: nat
  bf_type :: string

text \<open>
  What \<^verbatim>\<open>fetch\<close> resolves to: \<^verbatim>\<open>response.ok\<close> and the outcome of
  \<^verbatim>\<open>response.json()\<close> (\<open>Inl\<close> when the body does not parse). A rejected
  \<^verbatim>\<open>fetch\<close> is \<open>Inl\<close> the error's message.
\<close>

record fetch_response =
  resp_ok :: bool
  resp_json :: "string + json"

text \<open>
  The UTF-8 bytes of the cross mark that prefixes the client's error entries and of
  the sparkles that open its success entry.
\<close>

definition crossMark :: string where
  "crossMark = [CHR 0xE2, CHR 0x9D, CHR 0x8C]"

definition sparkles :: string where
  "sparkles = [CHR 0xE2, CHR 0x9C, CHR 0xA8]"

text \<open>\<^verbatim>\<open>throw new Error(v.error || fallback)\<close>: the message thrown.\<close>

definition errorOr :: "json \<Rightarrow> string \<Rightarrow> string" where
  "errorOr v fallback =
     (case getProp v ''error'' of
        Inl typeError \<Rightarrow> typeError
      | Inr err \<Rightarrow> if jsTruthy err then jsToString err else fallback)"

text \<open>
  The \<^verbatim>\<open>try\<close> block of handleVideoUpload: the message of the error thrown, if any,
  and the state at that point. \<open>objectUrl\<close> is \<^verbatim>\<open>URL.createObjectURL(file)\<close> and
  \<open>stamp\<close> is \<^verbatim>\<open>new Date().toISOString()\<close>.
\<close>

definition uploadTry ::
  "client_state \<Rightarrow> browser_file \<Rightarrow> string + fetch_response \<Rightarrow> string \<Rightarrow> string
     \<Rightarrow> string option \<times> client_state" where
  "uploadTry st file fetched objectUrl stamp =
     (if \<not> startsWith (bf_type file) ''video/'' then
        (Some ''Please select a valid video file'', st)
      else
        (let st1 = st\<lparr>uploadStatus := ''Uploading video...'', uploadProgress := 0,
                       isAnalyzing := True\<rparr> in
         case fetched of
           Inl err \<Rightarrow> (Some err, st1)
         | Inr response \<Rightarrow>
             (case resp_json response of
                Inl err \<Rightarrow> (Some err, st1)
              | Inr data \<Rightarrow>
                  if \<not> resp_ok response then (Some (errorOr data ''Upload failed''), st1)
                  else
                    (case getProp data ''success'' of
                       Inl typeError \<Rightarrow> (Some typeError, st1)
                     | Inr success \<Rightarrow>
                         if \<not> jsTruthy success then (Some (errorOr data ''Upload failed''), st1)
                         else
                           (let st2 = st1\<lparr>selectedVideo := Some objectUrl\<rparr> in
                            case getProp data ''file'' of
                              Inl typeError \<Rightarrow> (Some typeError, st2)
                            | Inr file' \<Rightarrow>
                                (case getProp file' ''analysis'' of
                                   Inl typeError \<Rightarrow> (Some typeError, st2)
                                 | Inr analysis \<Rightarrow>
                                     (case getProp analysis ''text'' of
                                        Inl typeError \<Rightarrow> (Some typeError, st2)
                                      | Inr text \<Rightarrow>
                                          (None,
                                           st2\<lparr>messages :=
                                             [\<lparr>ui_text = JStr (sparkles @ '' Video uploaded successfully!''),
                                               ui_sender = ''system'', ui_timestamp = stamp\<rparr>,
                                              \<lparr>ui_text = text, ui_sender = ''ai'',
                                               ui_timestamp = stamp\<rparr>]\<rparr>))))))))"

text \<open>handleVideoUpload: the \<^verbatim>\<open>try\<close> block, then \<^verbatim>\<open>catch\<close> and \<^verbatim>\<open>finally\<close>.\<close>

definition handleVideoUpload ::
  "client_state \<Rightarrow> browser_file \<Rightarrow> string + fetch_response \<Rightarrow> string \<Rightarrow> string
     \<Rightarrow> client_state" where
  "handleVideoUpload st file fetched objectUrl stamp =
     (let caught =
            (case uploadTry st file fetched objectUrl stamp of
               (None, st') \<Rightarrow> st'
             | (Some message, st') \<Rightarrow>
                 st'\<lparr>messages := [\<lparr>ui_text = JStr (crossMark @ '' '' @ message),
                                    ui_sender = ''system'', ui_timestamp = stamp\<rparr>],
                     selectedVideo := None\<rparr>)
      in caught\<lparr>isAnalyzing := False, uploadProgress := 0, uploadStatus := []\<rparr>)"

text \<open>
  The JSON the server's uploadVideo sends on success, as the client parses it:
  \<^verbatim>\<open>{success: true, file: {filename, path, size, mimetype}}\<close>.
\<close>

definition uploadOkJson :: "file_info \<Rightarrow> json" where
  "uploadOkJson info =
     JObj [(''success'', JBool True),
           (''file'', JObj [(''filename'', JStr (fi_filename info)),
                            (''path'', JStr (fi_path info)),
                            (''size'', JNum (int (fi_size info))),
                            (''mimetype'', JStr (fi_mimetype info))])]"

text \<open>
  The body handleSendMessage posts to /api/video/chat:
  \<^verbatim>\<open>{videoUri: selectedVideo, question: userMessage.text, chatHistory: messages}\<close>.
\<close>

definition clientChatBody :: "string \<Rightarrow> string \<Rightarrow> chat_message list \<Rightarrow> chat_body" where
  "clientChatBody video question history =
     \<lparr>cb_filename = None, cb_videoUri = Some video, cb_question = Some question,
      cb_chatHistory = Some history\<rparr>"

section \<open>Observations on a handler's events\<close>


fun isDeleteFile :: "event \<Rightarrow> bool" where
  "isDeleteFile (DeleteFile name) = True"
| "isDeleteFile ev = False"

text \<open>
  The polls of the wait loop: the reads of the remote file's state that follow a
  wait. Each one is a round of the loop and counts one attempt; the read made when
  the upload returns comes before the loop and is not one of them.
\<close>

fun polls :: "event list \<Rightarrow> nat" where
  "polls [] = 0"
| "polls (Sleep ms # GetFile name # tr) = Suc (polls tr)"
| "polls (ev # tr) = polls tr"

text \<open>The waits, in milliseconds, in order.\<close>

fun waits :: "event list \<Rightarrow> nat list" where
  "waits [] = []"
| "waits (Sleep ms # tr) = ms # waits tr"
| "waits (ev # tr) = waits tr"

text \<open>The requests sent to the provider's generate-content call.\<close>

fun generateCalls :: "event list \<Rightarrow> part list list" where
  "generateCalls [] = []"
| "generateCalls (GenerateContent key model ps # tr) = ps # generateCalls tr"
| "generateCalls (ev # tr) = generateCalls tr"

text \<open>The mimeType a request part declares for its media.\<close>

fun declaredMimeType :: "part \<Rightarrow> string option" where
  "declaredMimeType (InlineData b m) = Some m"
| "declaredMimeType (FileData u m) = Some m"
| "declaredMimeType (Text t) = None"

text \<open>The events of \<open>n\<close> rounds of the wait loop on the file \<open>name\<close>.\<close>

definition rounds :: "string \<Rightarrow> nat \<Rightarrow> event list" where
  "rounds name n = concat (replicate n [Sleep pollInterval, GetFile name])"

section \<open>Concrete inputs\<close>

definition exampleEnv :: env where
  "exampleEnv =
     \<lparr>GOOGLE_AI_KEY = Some ''test-key'', GEMINI_API_KEY = Some ''test-key'',
      files = (\<lambda>path. if path = ''/srv/uploads/clip.webm'' then Some (File ''webm-bytes'')
                       else if path = ''/srv/uploads/empty.mp4'' then Some (File [])
                       else if path = ''/srv/uploads'' then Some (Directory 4096)
                       else None),
      uploadsDir = ''/srv/uploads'',
      uploadPath = (\<lambda>name. ''/srv/uploads/'' @ name),
      now = 1700000000000,
      random = 123456789\<rparr>"

text \<open>The same server with a regular file where its uploads directory should be.\<close>

definition blockedEnv :: env where
  "blockedEnv = exampleEnv\<lparr>files := (files exampleEnv)(''/srv/uploads'' \<mapsto> File ''x'')\<rparr>"

text \<open>The same server started without any API key in its environment.\<close>

definition noKeyEnv :: env where
  "noKeyEnv = exampleEnv\<lparr>GOOGLE_AI_KEY := None, GEMINI_API_KEY := None\<rparr>"

text \<open>
  A provider stub: the uploaded file's state on the k-th read is the k-th entry of
  \<open>states\<close> (the last entry from then on), generate-content answers
  \<open>A cat runs.\<close> to a client that has a key and rejects one without, and deleting
  the file fails when \<open>cleanup\<close> is an error message.
\<close>

definition stubFile :: "string \<Rightarrow> remote_file" where
  "stubFile st =
     \<lparr>rf_name = ''files/abc'', rf_uri = ''https://provider.example/files/abc'',
      rf_mimeType = ''video/webm'', rf_state = st\<rparr>"

definition stubProvider :: "string list \<Rightarrow> string option \<Rightarrow> provider" where
  "stubProvider states cleanup =
     \<lparr>uploadFile = (\<lambda>buffer mimeType displayName. Inr (Some (stubFile ''PROCESSING''))),
      getFile = (\<lambda>name k. Inr (stubFile (if k < length states then states ! k else last states))),
      generateContent = (\<lambda>key model parts.
         case key of None \<Rightarrow> Inl ''API key not valid. Please pass a valid API key.''
         | Some k \<Rightarrow> Inr (Some ''A cat runs.'')),
      deleteFile = (\<lambda>name. cleanup)\<rparr>"

definition user :: "string \<Rightarrow> chat_message" where
  "user t = \<lparr>msg_text = t, msg_sender = ''user'', msg_timestamp = ''2024-01-01T00:00:00.000Z''\<rparr>"

definition ai :: "string \<Rightarrow> chat_message" where
  "ai t = \<lparr>msg_text = t, msg_sender = ''ai'', msg_timestamp = ''2024-01-01T00:00:00.000Z''\<rparr>"

definition system :: "string \<Rightarrow> chat_message" where
  "system t = \<lparr>msg_text = t, msg_sender = ''system'', msg_timestamp = ''2024-01-01T00:00:00.000Z''\<rparr>"

text \<open>Scenario 3 of the specification: 7 user/ai messages and 2 system messages.\<close>

definition scenario3 :: "chat_message list" where
  "scenario3 =
     [system ''uploaded'', ai ''a1'', user ''q1'', ai ''a2'', user ''q2'', system ''error'',
      ai ''a3'', user ''q3'', ai ''a4'']"

text \<open>Scenario 3 as a request to /api/video/chat and as a request to /api/ai/chat.\<close>

definition scenario3Chat :: chat_body where
  "scenario3Chat =
     \<lparr>cb_filename = Some ''clip.webm'', cb_videoUri = None,
      cb_question = Some ''What happens?'', cb_chatHistory = Some scenario3\<rparr>"

definition scenario3AiChat :: chat_body where
  "scenario3AiChat =
     \<lparr>cb_filename = None, cb_videoUri = Some ''https://provider.example/files/abc'',
      cb_question = Some ''What happens?'', cb_chatHistory = Some scenario3\<rparr>"

text \<open>The provider stub with a file that is ready at once and a cleanup that works.\<close>

definition stub :: provider where
  "stub = stubProvider [''ACTIVE''] None"

text \<open>Request bodies with a field missing, and uploads that the filter or the limit rejects.\<close>

definition noQuestionChat :: chat_body where
  "noQuestionChat =
     \<lparr>cb_filename = Some ''clip.webm'', cb_videoUri = Some ''https://provider.example/files/abc'',
      cb_question = None, cb_chatHistory = Some []\<rparr>"

definition missingFileChat :: chat_body where
  "missingFileChat =
     \<lparr>cb_filename = Some ''missing.mp4'', cb_videoUri = None,
      cb_question = Some ''What happens?'', cb_chatHistory = Some []\<rparr>"

definition emptyChat :: chat_body where
  "emptyChat =
     \<lparr>cb_filename = None, cb_videoUri = None, cb_question = Some ''What happens?'',
      cb_chatHistory = None\<rparr>"

definition textUpload :: upload_file where
  "textUpload = \<lparr>originalname = ''notes.txt'', mimetype = ''text/plain'', content = ''hello''\<rparr>"

definition webmUpload :: upload_file where
  "webmUpload = \<lparr>originalname = ''clip.webm'', mimetype = ''video/webm'', content = ''webm-bytes''\<rparr>"

definition oversizedUpload :: upload_file where
  "oversizedUpload =
     \<lparr>originalname = ''big.mp4'', mimetype = ''video/mp4'',
      content = replicate (25 * 1024 * 1024 + 1) (CHR ''x'')\<rparr>"

text \<open>The provider stub whose file is ready on the second read and whose cleanup fails.\<close>

definition failingCleanup :: provider where
  "failingCleanup = stubProvider [''PROCESSING'', ''ACTIVE''] (Some ''cleanup failed'')"

text \<open>A fresh client, a video picked by the user, and the file the server reports.\<close>

definition freshClient :: client_state where
  "freshClient =
     \<lparr>messages = [], newMessage = [], selectedVideo = None, isAnalyzing = False,
      isDragging = False, uploadProgress = 0, uploadStatus = []\<rparr>"

definition pickedVideo :: browser_file where
  "pickedVideo = \<lparr>bf_name = ''clip.webm'', bf_size = 10, bf_type = ''video/webm''\<rparr>"

definition storedInfo :: file_info where
  "storedInfo =
     \<lparr>fi_filename = ''1700000000000-123456789.webm'',
      fi_path = ''/srv/uploads/1700000000000-123456789.webm'',
      fi_size = 10, fi_mimetype = ''video/webm''\<rparr>"

section \<open>Properties of the chat-history reduction\<close>

lemma slice_neg_drop: "0 < k \<Longrightarrow> slice (- int k) xs = drop (length xs - k) xs"
  by (simp add: slice_def Let_def nat_diff_distrib' max_def)

lemma slice_last5: "slice (- 5) xs = drop (length xs - 5) xs"
  using slice_neg_drop [of 5 xs] by simp

lemma slice_neg_length: "0 < k \<Longrightarrow> length (slice (- int k) xs) = min k (length xs)"
  by (simp add: slice_neg_drop)

lemma slice_neg_suffix: "0 < k \<Longrightarrow> suffix (slice (- int k) xs) xs"
  by (simp add: slice_neg_drop suffix_drop)

text \<open>
  C3. The reduction computed by chatWithVideo is a function of the message list alone.
  Its output is the image, entry by entry and in the original order, of a list
  \<open>kept\<close> of input messages: \<open>kept\<close> is the tail end of the non-system messages (so
  no kept message has sender "system", and the kept ones are the most recent), each
  kept message gets role "user" when its sender is "user" and "model" otherwise, and
  the output has min(5, number of non-system messages) entries.
\<close>

theorem recentHistory_reduction:
  fixes h :: "chat_message list"
  defines "nonsys \<equiv> filter (\<lambda>m. msg_sender m \<noteq> ''system'') h"
  shows "\<exists>kept. suffix kept nonsys \<and> subseq kept h
           \<and> (\<forall>m \<in> set kept. msg_sender m \<noteq> ''system'')
           \<and> length kept = min 5 (length nonsys)
           \<and> length (recentHistory (Some h)) = min 5 (length nonsys)
           \<and> recentHistory (Some h) = map formatMessage kept
           \<and> (\<forall>i < length kept.
                 role (recentHistory (Some h) ! i)
                   = (if msg_sender (kept ! i) = ''user'' then ''user'' else ''model'')
                 \<and> parts (recentHistory (Some h) ! i) = msg_text (kept ! i))"
proof -
  define kept where "kept = slice (- 5) nonsys"
  have suf: "suffix kept nonsys"
    unfolding kept_def by (simp add: slice_last5 suffix_drop)
  have sub: "subseq kept h"
  proof -
    have "subseq kept nonsys" using suf by (rule suffix_imp_subseq)
    moreover have "subseq nonsys h" unfolding nonsys_def by simp
    ultimately show ?thesis by (rule subseq_order.trans)
  qed
  have nosys: "\<forall>m \<in> set kept. msg_sender m \<noteq> ''system''"
  proof
    fix m assume "m \<in> set kept"
    then have "m \<in> set nonsys" using suf set_mono_suffix by blast
    then show "msg_sender m \<noteq> ''system''" unfolding nonsys_def by simp
  qed
  have len: "length kept = min 5 (length nonsys)"
    unfolding kept_def by (simp add: slice_last5)
  have eq: "recentHistory (Some h) = map formatMessage kept"
    unfolding recentHistory_def kept_def nonsys_def by simp
  have pt: "\<forall>i < length kept.
              role (recentHistory (Some h) ! i)
                = (if msg_sender (kept ! i) = ''user'' then ''user'' else ''model'')
              \<and> parts (recentHistory (Some h) ! i) = msg_text (kept ! i)"
    unfolding eq by (simp add: formatMessage_def)
  have len2: "length (recentHistory (Some h)) = min 5 (length nonsys)"
    unfolding eq using len by simp
  show ?thesis
    using suf sub nosys len len2 eq pt by blast
qed

theorem recentHistory_reduction_witness:
  "\<exists>kept. kept = [ai ''a2'', user ''q2'', ai ''a3'', user ''q3'', ai ''a4'']
      \<and> recentHistory (Some scenario3) = map formatMessage kept
      \<and> length (recentHistory (Some scenario3)) = 5"
proof -
  let ?nonsys = "filter (\<lambda>m. msg_sender m \<noteq> ''system'') scenario3"
  have nonsys: "?nonsys = [ai ''a1'', user ''q1'', ai ''a2'', user ''q2'', ai ''a3'', user ''q3'', ai ''a4'']"
    by (simp add: scenario3_def user_def ai_def system_def)
  from recentHistory_reduction [of scenario3]
  obtain kept where suf: "suffix kept ?nonsys"
    and len: "length kept = min 5 (length ?nonsys)"
    and eq: "recentHistory (Some scenario3) = map formatMessage kept"
    by blast
  from suf obtain zs where split: "?nonsys = zs @ kept"
    by (auto simp: suffix_def)
  then have "length ?nonsys = length zs + length kept"
    by (metis length_append)
  then have zs: "length zs = 2"
    using len unfolding nonsys by simp
  from split have "kept = drop (length zs) ?nonsys"
    by simp
  then have "kept = [ai ''a2'', user ''q2'', ai ''a3'', user ''q3'', ai ''a4'']"
    unfolding zs nonsys by simp
  then show ?thesis using eq by simp
qed

section \<open>The wait loop of analyzeVideoContent\<close>

lemma polls_cleanup: "polls (case c of None \<Rightarrow> [] | Some err \<Rightarrow> [Warn err]) = 0"
  by (simp split: option.split)

lemma waits_cleanup: "waits (case c of None \<Rightarrow> [] | Some err \<Rightarrow> [Warn err]) = []"
  by (simp split: option.split)

lemma waits_append: "waits (tr @ tr') = waits tr @ waits tr'"
  by (induction tr rule: waits.induct) simp_all

lemma generateCalls_append: "generateCalls (tr @ tr') = generateCalls tr @ generateCalls tr'"
  by (induction tr rule: generateCalls.induct) simp_all

lemma rounds_Suc: "rounds name (Suc n) = [Sleep pollInterval, GetFile name] @ rounds name n"
  by (simp add: rounds_def)

lemma polls_rounds: "polls (rounds name n @ tr) = n + polls tr"
  by (induction n) (simp_all add: rounds_def)

lemma waits_rounds: "waits (rounds name n) = replicate n pollInterval"
  by (induction n) (simp_all add: rounds_def)

lemma generateCalls_rounds: "generateCalls (rounds name n) = []"
  by (induction n) (simp_all add: rounds_def)

lemma waitForProcessing_until:
  assumes "\<forall>k. attempts < k \<and> k \<le> n \<longrightarrow> getFile p name k = Inr (f k)"
    and "\<forall>k. attempts \<le> k \<and> k < n \<longrightarrow> rf_state (f k) = ''PROCESSING''"
    and "attempts \<le> n" and "n \<le> maxAttempts"
    and "rf_state (f n) \<noteq> ''PROCESSING'' \<or> n = maxAttempts"
  shows "waitForProcessing p name (f attempts) attempts tr
           = (Inr (f n, n), tr @ rounds name (n - attempts))"
  using assms
proof (induction "n - attempts" arbitrary: attempts tr)
  case 0
  then have "attempts = n" by simp
  with 0 show ?case
    by (subst waitForProcessing.simps) (auto simp: rounds_def)
next
  case (Suc d)
  then have lt: "attempts < n" by simp
  then have st: "rf_state (f attempts) = ''PROCESSING''" using Suc.prems by simp
  have rd: "getFile p name (attempts + 1) = Inr (f (attempts + 1))" using Suc.prems lt by simp
  have d: "d = n - (attempts + 1)" using Suc.hyps by simp
  have ih: "waitForProcessing p name (f (attempts + 1)) (attempts + 1) (tr @ [Sleep pollInterval, GetFile name])
          = (Inr (f n, n), (tr @ [Sleep pollInterval, GetFile name]) @ rounds name (n - (attempts + 1)))"
    using Suc.prems lt by (intro Suc.hyps(1) d) auto
  have n: "n - attempts = Suc (n - (attempts + 1))" using lt by simp
  show ?case
    using st lt Suc.prems(4) rd ih
    by (subst waitForProcessing.simps) (simp add: n rounds_Suc)
qed

lemma analyze_reaches_gemini:
  assumes "initialized e" and "present videoPath = Some path"
    and "files e path = Some (File buffer)" and "buffer \<noteq> []"
  shows "analyzeVideoContent e p videoPath =
           (case geminiAnalyze e p buffer (aiMimeType path) (basename path) of
              (Inl err, tr) \<Rightarrow> (respond 500 (Failure (''Gemini API Error: '' @ err)), tr)
            | (Inr analysis, tr) \<Rightarrow> (respond 200 (AnalysisOk analysis), tr))"
  using assms
  by (simp add: analyzeVideoContent_def statSize_def readFileSync_def message_or_def
      split: prod.splits sum.splits)

lemma geminiAnalyze_wait:
  assumes up: "uploadFile p buffer mimeType displayName = Inr (Some uploaded)"
    and reads: "\<forall>k \<le> n. getFile p (rf_name uploaded) k = Inr (f k)"
    and n: "n \<le> maxAttempts"
    and before: "\<forall>k < n. rf_state (f k) = ''PROCESSING''"
    and at: "rf_state (f n) \<noteq> ''PROCESSING'' \<or> n = maxAttempts"
  shows "waitForProcessing p (rf_name uploaded) (f 0) 0
            [UploadFile buffer mimeType displayName, GetFile (rf_name uploaded)]
          = (Inr (f n, n),
             [UploadFile buffer mimeType displayName, GetFile (rf_name uploaded)]
               @ rounds (rf_name uploaded) n)"
  using waitForProcessing_until [of 0 n p "rf_name uploaded" f] reads n before at
  by simp

lemma geminiAnalyze_not_active:
  assumes up: "uploadFile p buffer mimeType displayName = Inr (Some uploaded)"
    and reads: "\<forall>k \<le> n. getFile p (rf_name uploaded) k = Inr (f k)"
    and n: "n \<le> maxAttempts"
    and before: "\<forall>k < n. rf_state (f k) = ''PROCESSING''"
    and at: "rf_state (f n) \<noteq> ''PROCESSING'' \<or> n = maxAttempts"
    and inactive: "rf_state (f n) \<noteq> ''ACTIVE''"
  shows "geminiAnalyze e p buffer mimeType displayName
          = (Inl (''Video processing failed - State: '' @ rf_state (f n)),
             [UploadFile buffer mimeType displayName, GetFile (rf_name uploaded)]
               @ rounds (rf_name uploaded) n)"
proof -
  have r0: "getFile p (rf_name uploaded) 0 = Inr (f 0)" using reads by simp
  show ?thesis
    unfolding geminiAnalyze_def
    using up r0 inactive geminiAnalyze_wait [OF up reads n before at]
    by (simp add: Let_def)
qed

lemma geminiAnalyze_active:
  assumes up: "uploadFile p buffer mimeType displayName = Inr (Some uploaded)"
    and reads: "\<forall>k \<le> n. getFile p (rf_name uploaded) k = Inr (f k)"
    and n: "n \<le> maxAttempts"
    and before: "\<forall>k < n. rf_state (f k) = ''PROCESSING''"
    and active: "rf_state (f n) = ''ACTIVE''"
    and gen: "generateContent p (GOOGLE_AI_KEY e) aiModel
                [FileData (rf_uri (f n)) (rf_mimeType (f n)), Text analysisPrompt] = Inr (Some text)"
  shows "geminiAnalyze e p buffer mimeType displayName
          = (Inr \<lparr>an_text = text, an_videoUri = Some (rf_uri (f n)), an_timestamp = now e,
                  an_type = Some ''initial-analysis''\<rparr>,
             [UploadFile buffer mimeType displayName, GetFile (rf_name uploaded)]
               @ rounds (rf_name uploaded) n
               @ [GenerateContent (GOOGLE_AI_KEY e) aiModel
                    [FileData (rf_uri (f n)) (rf_mimeType (f n)), Text analysisPrompt],
                  DeleteFile (rf_name (f n))]
               @ (case deleteFile p (rf_name (f n)) of None \<Rightarrow> [] | Some err \<Rightarrow> [Warn err]))"
proof -
  have r0: "getFile p (rf_name uploaded) 0 = Inr (f 0)" using reads by simp
  have at: "rf_state (f n) \<noteq> ''PROCESSING'' \<or> n = maxAttempts" using active by simp
  show ?thesis
    unfolding geminiAnalyze_def
    using up r0 active gen geminiAnalyze_wait [OF up reads n before at]
    by (simp add: Let_def)
qed

text \<open>
  C1. In analyzeVideoContent the remote file, read once when the upload returns, is
  polled in a loop: every poll waits 2000 ms, reads the state again and counts one
  attempt, and the loop stops at 30 attempts. For a request that reaches the provider
  (API initialised, a non-empty file at the path, the upload answered with a file):
  if the file is PROCESSING when it is obtained and on the polls before poll \<open>n\<close>
  (\<open>n \<le> 30\<close>), and ACTIVE on poll \<open>n\<close>, and generate-content answers, the handler
  succeeds with status 200 after exactly \<open>n\<close> polls, each after a wait of 2000 ms, the
  loop's counter standing at \<open>n\<close> (for the polls PROCESSING, PROCESSING, ACTIVE:
  exactly 3 polls); if the file is PROCESSING on every read, the handler fails after
  exactly 30 polls, the counter standing at 30, with status 500 and the message
  \<open>Gemini API Error: Video processing failed - State: PROCESSING\<close>, and never
  calls generate-content.
\<close>

theorem polling_outcomes:
  assumes init: "initialized e"
    and path: "present videoPath = Some path"
    and stored: "files e path = Some (File buffer)"
    and nonempty: "buffer \<noteq> []"
    and up: "uploadFile p buffer (aiMimeType path) (basename path) = Inr (Some uploaded)"
  shows "(\<forall>n answer. n \<le> 30
            \<and> (\<forall>k \<le> n. getFile p (rf_name uploaded) k = Inr (f k))
            \<and> (\<forall>k < n. rf_state (f k) = ''PROCESSING'')
            \<and> rf_state (f n) = ''ACTIVE''
            \<and> generateContent p (GOOGLE_AI_KEY e) aiModel
                 [FileData (rf_uri (f n)) (rf_mimeType (f n)), Text analysisPrompt] = Inr (Some answer)
          \<longrightarrow> status (fst (analyzeVideoContent e p videoPath)) = 200
              \<and> (\<exists>a. body (fst (analyzeVideoContent e p videoPath)) = AnalysisOk a \<and> an_text a = answer)
              \<and> polls (snd (analyzeVideoContent e p videoPath)) = n
              \<and> waits (snd (analyzeVideoContent e p videoPath)) = replicate n 2000
              \<and> fst (waitForProcessing p (rf_name uploaded) (f 0) 0 trace) = Inr (f n, n))
       \<and> ((\<forall>k \<le> 30. getFile p (rf_name uploaded) k = Inr (f k) \<and> rf_state (f k) = ''PROCESSING'')
          \<longrightarrow> fst (analyzeVideoContent e p videoPath)
                = respond 500 (Failure ''Gemini API Error: Video processing failed - State: PROCESSING'')
              \<and> polls (snd (analyzeVideoContent e p videoPath)) = 30
              \<and> waits (snd (analyzeVideoContent e p videoPath)) = replicate 30 2000
              \<and> generateCalls (snd (analyzeVideoContent e p videoPath)) = []
              \<and> fst (waitForProcessing p (rf_name uploaded) (f 0) 0 trace) = Inr (f 30, 30))"
proof (intro conjI allI impI)
  fix n answer
  assume h: "n \<le> 30
            \<and> (\<forall>k \<le> n. getFile p (rf_name uploaded) k = Inr (f k))
            \<and> (\<forall>k < n. rf_state (f k) = ''PROCESSING'')
            \<and> rf_state (f n) = ''ACTIVE''
            \<and> generateContent p (GOOGLE_AI_KEY e) aiModel
                 [FileData (rf_uri (f n)) (rf_mimeType (f n)), Text analysisPrompt] = Inr (Some answer)"
  then have n: "n \<le> maxAttempts" by (simp add: maxAttempts_def)
  from h have reads: "\<forall>k \<le> n. getFile p (rf_name uploaded) k = Inr (f k)"
    and before: "\<forall>k < n. rf_state (f k) = ''PROCESSING''"
    and active: "rf_state (f n) = ''ACTIVE''"
    and gen: "generateContent p (GOOGLE_AI_KEY e) aiModel
                 [FileData (rf_uri (f n)) (rf_mimeType (f n)), Text analysisPrompt] = Inr (Some answer)"
    by simp_all
  note run = analyze_reaches_gemini [OF init path stored nonempty, of p]
    geminiAnalyze_active [OF up reads n before active gen]
  show "status (fst (analyzeVideoContent e p videoPath)) = 200"
    using run by (simp add: respond_def)
  show "\<exists>a. body (fst (analyzeVideoContent e p videoPath)) = AnalysisOk a \<and> an_text a = answer"
    using run by (simp add: respond_def)
  show "polls (snd (analyzeVideoContent e p videoPath)) = n"
    using run by (simp add: polls_rounds polls_cleanup)
  show "waits (snd (analyzeVideoContent e p videoPath)) = replicate n 2000"
    using run by (simp add: waits_append waits_rounds waits_cleanup pollInterval_def)
  show "fst (waitForProcessing p (rf_name uploaded) (f 0) 0 trace) = Inr (f n, n)"
    using waitForProcessing_until [of 0 n p "rf_name uploaded" f trace] reads before active n
    by simp
next
  assume stuck: "\<forall>k \<le> 30. getFile p (rf_name uploaded) k = Inr (f k)
                   \<and> rf_state (f k) = ''PROCESSING''"
  have n: "maxAttempts \<le> maxAttempts" by simp
  have reads: "\<forall>k \<le> maxAttempts. getFile p (rf_name uploaded) k = Inr (f k)"
    using stuck by (simp add: maxAttempts_def)
  have before: "\<forall>k < maxAttempts. rf_state (f k) = ''PROCESSING''"
    using stuck by (simp add: maxAttempts_def)
  have last: "rf_state (f maxAttempts) = ''PROCESSING''"
    using stuck by (simp add: maxAttempts_def)
  have at: "rf_state (f maxAttempts) \<noteq> ''PROCESSING'' \<or> maxAttempts = maxAttempts" by simp
  have inactive: "rf_state (f maxAttempts) \<noteq> ''ACTIVE''" using last by simp
  note run = analyze_reaches_gemini [OF init path stored nonempty, of p]
    geminiAnalyze_not_active [OF up reads n before at inactive]
  show "fst (analyzeVideoContent e p videoPath)
          = respond 500 (Failure ''Gemini API Error: Video processing failed - State: PROCESSING'')"
    using run last by simp
  show "polls (snd (analyzeVideoContent e p videoPath)) = 30"
    using run polls_rounds [of "rf_name uploaded" maxAttempts "[]"]
    by (simp add: maxAttempts_def)
  show "waits (snd (analyzeVideoContent e p videoPath)) = replicate 30 2000"
    using run by (simp add: waits_append waits_rounds pollInterval_def maxAttempts_def)
  show "generateCalls (snd (analyzeVideoContent e p videoPath)) = []"
    using run by (simp add: generateCalls_append generateCalls_rounds)
  show "fst (waitForProcessing p (rf_name uploaded) (f 0) 0 trace) = Inr (f 30, 30)"
    using waitForProcessing_until [of 0 maxAttempts p "rf_name uploaded" f trace] reads before
    by (simp add: maxAttempts_def)
qed

lemma example_initialized: "initialized exampleEnv"
  by (simp add: initialized_def truthy_def exampleEnv_def)

lemma example_present: "present (Some ''/srv/uploads/clip.webm'') = Some ''/srv/uploads/clip.webm''"
  by (simp add: present_def)

lemma example_stored: "files exampleEnv ''/srv/uploads/clip.webm'' = Some (File ''webm-bytes'')"
  by (simp add: exampleEnv_def)

lemma stub_upload:
  "uploadFile (stubProvider states cleanup) buffer mimeType displayName
     = Inr (Some (stubFile ''PROCESSING''))"
  by (simp add: stubProvider_def)

lemma stub_reads:
  "getFile (stubProvider states cleanup) name k
     = Inr (stubFile (if k < length states then states ! k else last states))"
  by (simp add: stubProvider_def)

lemma rf_state_stubFile: "rf_state (stubFile st) = st"
  by (simp add: stubFile_def)

theorem polling_outcomes_witness:
  "status (fst (analyzeVideoContent exampleEnv
             (stubProvider [''PROCESSING'', ''PROCESSING'', ''PROCESSING'', ''ACTIVE''] None)
             (Some ''/srv/uploads/clip.webm''))) = 200
   \<and> polls (snd (analyzeVideoContent exampleEnv
             (stubProvider [''PROCESSING'', ''PROCESSING'', ''PROCESSING'', ''ACTIVE''] None)
             (Some ''/srv/uploads/clip.webm''))) = 3
   \<and> waits (snd (analyzeVideoContent exampleEnv
             (stubProvider [''PROCESSING'', ''PROCESSING'', ''PROCESSING'', ''ACTIVE''] None)
             (Some ''/srv/uploads/clip.webm''))) = [2000, 2000, 2000]
   \<and> fst (waitForProcessing
             (stubProvider [''PROCESSING'', ''PROCESSING'', ''PROCESSING'', ''ACTIVE''] None)
             ''files/abc'' (stubFile ''PROCESSING'') 0 [])
       = Inr (stubFile ''ACTIVE'', 3)
   \<and> fst (analyzeVideoContent exampleEnv (stubProvider [''PROCESSING''] None)
             (Some ''/srv/uploads/clip.webm''))
       = respond 500 (Failure ''Gemini API Error: Video processing failed - State: PROCESSING'')
   \<and> polls (snd (analyzeVideoContent exampleEnv (stubProvider [''PROCESSING''] None)
             (Some ''/srv/uploads/clip.webm''))) = 30
   \<and> generateCalls (snd (analyzeVideoContent exampleEnv (stubProvider [''PROCESSING''] None)
             (Some ''/srv/uploads/clip.webm''))) = []
   \<and> fst (waitForProcessing (stubProvider [''PROCESSING''] None)
             ''files/abc'' (stubFile ''PROCESSING'') 0 [])
       = Inr (stubFile ''PROCESSING'', 30)"
proof -
  have nonempty: "''webm-bytes'' \<noteq> []" by simp
  let ?states = "[''PROCESSING'', ''PROCESSING'', ''PROCESSING'', ''ACTIVE'']"
  note ready = polling_outcomes [where p = "stubProvider ?states None"
      and f = "\<lambda>k. stubFile (if k < length ?states then ?states ! k else last ?states)"
      and trace = "[]",
      OF example_initialized example_present example_stored nonempty stub_upload,
      THEN conjunct1, rule_format, of 3 "''A cat runs.''"]
  note stuck = polling_outcomes [where p = "stubProvider [''PROCESSING''] None"
      and f = "\<lambda>k. stubFile (if k < length [''PROCESSING''] then [''PROCESSING''] ! k
                              else last [''PROCESSING''])"
      and trace = "[]",
      OF example_initialized example_present example_stored nonempty stub_upload,
      THEN conjunct2, rule_format]
  have r: "status (fst (analyzeVideoContent exampleEnv (stubProvider ?states None)
             (Some ''/srv/uploads/clip.webm''))) = 200
   \<and> polls (snd (analyzeVideoContent exampleEnv (stubProvider ?states None)
             (Some ''/srv/uploads/clip.webm''))) = 3
   \<and> waits (snd (analyzeVideoContent exampleEnv (stubProvider ?states None)
             (Some ''/srv/uploads/clip.webm''))) = [2000, 2000, 2000]
   \<and> fst (waitForProcessing (stubProvider ?states None)
             ''files/abc'' (stubFile ''PROCESSING'') 0 [])
       = Inr (stubFile ''ACTIVE'', 3)"
    using ready
    by (simp add: stub_reads rf_state_stubFile less_Suc_eq numeral_3_eq_3 stubProvider_def
        exampleEnv_def stubFile_def)
  have s: "fst (analyzeVideoContent exampleEnv (stubProvider [''PROCESSING''] None)
             (Some ''/srv/uploads/clip.webm''))
       = respond 500 (Failure ''Gemini API Error: Video processing failed - State: PROCESSING'')
   \<and> polls (snd (analyzeVideoContent exampleEnv (stubProvider [''PROCESSING''] None)
             (Some ''/srv/uploads/clip.webm''))) = 30
   \<and> generateCalls (snd (analyzeVideoContent exampleEnv (stubProvider [''PROCESSING''] None)
             (Some ''/srv/uploads/clip.webm''))) = []
   \<and> fst (waitForProcessing (stubProvider [''PROCESSING''] None)
             ''files/abc'' (stubFile ''PROCESSING'') 0 [])
       = Inr (stubFile ''PROCESSING'', 30)"
    using stuck by (simp add: stub_reads rf_state_stubFile stubFile_def)
  show ?thesis using r s by simp
qed

section \<open>The chat handlers and the API key\<close>

lemma exampleEnv_sel:
  "GOOGLE_AI_KEY exampleEnv = Some ''test-key''"
  "GEMINI_API_KEY exampleEnv = Some ''test-key''"
  "files exampleEnv path =
     (if path = ''/srv/uploads/clip.webm'' then Some (File ''webm-bytes'')
      else if path = ''/srv/uploads/empty.mp4'' then Some (File [])
      else if path = ''/srv/uploads'' then Some (Directory 4096) else None)"
  "uploadsDir exampleEnv = ''/srv/uploads''"
  "uploadPath exampleEnv name = ''/srv/uploads/'' @ name"
  "now exampleEnv = 1700000000000"
  "random exampleEnv = 123456789"
  by (simp_all add: exampleEnv_def)

lemma stub_sel:
  "generateContent stub key model ps =
     (case key of None \<Rightarrow> Inl ''API key not valid. Please pass a valid API key.''
      | Some k \<Rightarrow> Inr (Some ''A cat runs.''))"
  by (simp add: stub_def stubProvider_def)

lemma chatWithVideo_ignores_history:
  "chatWithVideo e p (b\<lparr>cb_chatHistory := h\<rparr>) = chatWithVideo e p b"
  by (simp add: chatWithVideo_def Let_def split: option.splits sum.splits)

lemma chatWithVideo_scenario3:
  "chatWithVideo exampleEnv stub scenario3Chat =
     (respond 200 (ReplyOk \<lparr>rp_text = ''A cat runs.'', rp_timestamp = 1700000000000, rp_type = None\<rparr>),
      [GenerateContent (Some ''test-key'') videoModel
         [InlineData ''webm-bytes'' ''video/mp4'', Text (''What happens?'' @ chatSuffix)]])"
  by (simp add: chatWithVideo_def Let_def scenario3Chat_def present_def exampleEnv_sel
      readFileSync_def message_or_def stub_sel)

lemma formatted_scenario3:
  "map role (formattedHistory (Some scenario3))
     = [''model'', ''model'', ''user'', ''model'', ''user'', ''model'', ''model'', ''user'', ''model'']"
  by (simp add: formattedHistory_def scenario3_def formatMessage_def user_def ai_def system_def)

lemma generateResponse_scenario3:
  "snd (generateResponse exampleEnv stub scenario3AiChat) =
      [GenerateContent (Some ''test-key'') aiModel
         [FileData ''https://provider.example/files/abc'' ''video/mp4'',
          Text (chatPrompt ''What happens?'' (formattedHistory (Some scenario3)))]]"
  by (simp add: generateResponse_def scenario3AiChat_def present_def example_initialized
      exampleEnv_sel stub_sel Let_def)

lemma noKeyEnv_sel:
  "GOOGLE_AI_KEY noKeyEnv = None"
  "GEMINI_API_KEY noKeyEnv = None"
  "files noKeyEnv = files exampleEnv"
  "uploadsDir noKeyEnv = uploadsDir exampleEnv"
  "uploadPath noKeyEnv = uploadPath exampleEnv"
  "now noKeyEnv = now exampleEnv"
  "random noKeyEnv = random exampleEnv"
  by (simp_all add: noKeyEnv_def)

lemma extname_clip: "extname ''/srv/uploads/clip.webm'' = ''.webm''"
  by (simp add: extname_def basename_def)

lemma lower_webm: "toLowerCase ''.webm'' = ''.webm''"
  by (simp add: toLowerCase_def lowerChar_def)

lemma videoMimeType_clip: "videoMimeType ''/srv/uploads/clip.webm'' = ''video/webm''"
  by (simp add: videoMimeType_def extname_clip lower_webm)

text \<open>
  C2, evaluated on scenario 3 (7 user/ai messages and 2 system messages). chatWithVideo
  computes the 5-entry context, but the request it sends to generate-content holds the
  video and the question only, and is the request it sends with no history at all.
  generateResponse sends a prompt that embeds all 9 messages, the two system messages
  under the role "model".
\<close>

theorem chat_history_dropped:
  "length (recentHistory (cb_chatHistory scenario3Chat)) = 5
   \<and> generateCalls (snd (chatWithVideo exampleEnv stub scenario3Chat))
       = [[InlineData ''webm-bytes'' ''video/mp4'', Text (''What happens?'' @ chatSuffix)]]
   \<and> chatWithVideo exampleEnv stub scenario3Chat
       = chatWithVideo exampleEnv stub (scenario3Chat\<lparr>cb_chatHistory := None\<rparr>)
   \<and> generateCalls (snd (generateResponse exampleEnv stub scenario3AiChat))
       = [[FileData ''https://provider.example/files/abc'' ''video/mp4'',
           Text (chatPrompt ''What happens?'' (formattedHistory (Some scenario3)))]]
   \<and> map role (formattedHistory (Some scenario3))
       = [''model'', ''model'', ''user'', ''model'', ''user'', ''model'', ''model'', ''user'', ''model'']"
proof -
  have "length (recentHistory (cb_chatHistory scenario3Chat)) = 5"
    by (simp add: scenario3Chat_def recentHistory_def slice_last5 scenario3_def user_def ai_def
        system_def)
  moreover have "generateCalls (snd (chatWithVideo exampleEnv stub scenario3Chat))
       = [[InlineData ''webm-bytes'' ''video/mp4'', Text (''What happens?'' @ chatSuffix)]]"
    by (simp add: chatWithVideo_scenario3)
  moreover have "chatWithVideo exampleEnv stub scenario3Chat
       = chatWithVideo exampleEnv stub (scenario3Chat\<lparr>cb_chatHistory := None\<rparr>)"
    by (simp only: chatWithVideo_ignores_history)
  moreover have "generateCalls (snd (generateResponse exampleEnv stub scenario3AiChat))
       = [[FileData ''https://provider.example/files/abc'' ''video/mp4'',
           Text (chatPrompt ''What happens?'' (formattedHistory (Some scenario3)))]]"
    by (simp add: generateResponse_scenario3)
  ultimately show ?thesis
    using formatted_scenario3 by blast
qed

text \<open>
  C10. Every generate-content request sent by a chat handler, chatWithVideo (inline
  bytes) or generateResponse (file URI), starts with a media part whose declared
  mimeType is the literal video/mp4, whatever the request, the stored file and the
  environment are.
\<close>

theorem chat_mimetype_literal:
  "(\<forall>ps \<in> set (generateCalls (snd (chatWithVideo e p b))).
      \<exists>media rest. ps = media # rest \<and> declaredMimeType media = Some ''video/mp4'')
   \<and> (\<forall>ps \<in> set (generateCalls (snd (generateResponse e p b))).
      \<exists>media rest. ps = media # rest \<and> declaredMimeType media = Some ''video/mp4'')"
proof
  show "\<forall>ps \<in> set (generateCalls (snd (chatWithVideo e p b))).
      \<exists>media rest. ps = media # rest \<and> declaredMimeType media = Some ''video/mp4''"
    by (simp add: chatWithVideo_def Let_def split: option.splits sum.splits)
  show "\<forall>ps \<in> set (generateCalls (snd (generateResponse e p b))).
      \<exists>media rest. ps = media # rest \<and> declaredMimeType media = Some ''video/mp4''"
    by (simp add: generateResponse_def Let_def split: option.splits sum.splits)
qed

theorem chat_mimetype_literal_witness:
  "videoMimeType (uploadPath exampleEnv ''clip.webm'') = ''video/webm''
   \<and> (\<exists>media rest. generateCalls (snd (chatWithVideo exampleEnv stub scenario3Chat)) = [media # rest]
         \<and> declaredMimeType media = Some ''video/mp4'')
   \<and> (\<exists>media rest. generateCalls (snd (generateResponse exampleEnv stub scenario3AiChat)) = [media # rest]
         \<and> declaredMimeType media = Some ''video/mp4'')"
proof -
  have v: "generateCalls (snd (chatWithVideo exampleEnv stub scenario3Chat))
       = [[InlineData ''webm-bytes'' ''video/mp4'', Text (''What happens?'' @ chatSuffix)]]"
    by (simp add: chatWithVideo_scenario3)
  have a: "generateCalls (snd (generateResponse exampleEnv stub scenario3AiChat))
       = [[FileData ''https://provider.example/files/abc'' ''video/mp4'',
           Text (chatPrompt ''What happens?'' (formattedHistory (Some scenario3)))]]"
    by (simp add: generateResponse_scenario3)
  from chat_mimetype_literal [of exampleEnv stub scenario3Chat]
  have "\<exists>media rest. generateCalls (snd (chatWithVideo exampleEnv stub scenario3Chat)) = [media # rest]
         \<and> declaredMimeType media = Some ''video/mp4''"
    unfolding v by simp
  moreover from chat_mimetype_literal [of exampleEnv stub scenario3AiChat]
  have "\<exists>media rest. generateCalls (snd (generateResponse exampleEnv stub scenario3AiChat)) = [media # rest]
         \<and> declaredMimeType media = Some ''video/mp4''"
    unfolding a by simp
  ultimately show ?thesis
    by (simp add: exampleEnv_sel videoMimeType_clip)
qed

lemma noKey_uninitialized: "\<not> truthy (GOOGLE_AI_KEY noKeyEnv)"
  by (simp add: truthy_def noKeyEnv_sel)

text \<open>
  C4, as amended. When GOOGLE_AI_KEY is absent or empty, both handlers of aiController
  (POST /api/ai/analyze and POST /api/ai/chat) answer every request with status 500 and
  the error \<open>Gemini API not properly initialized\<close>, and make no provider call.
\<close>

theorem ai_endpoints_disabled_without_key:
  assumes "\<not> truthy (GOOGLE_AI_KEY e)"
  shows "analyzeVideoContent e p videoPath
           = (respond 500 (Failure ''Gemini API not properly initialized''), [])
       \<and> generateResponse e p b
           = (respond 500 (Failure ''Gemini API not properly initialized''), [])"
  using assms
  by (simp add: analyzeVideoContent_def generateResponse_def initialized_def message_or_def)

theorem ai_endpoints_disabled_without_key_witness:
  "GOOGLE_AI_KEY noKeyEnv = None
   \<and> analyzeVideoContent noKeyEnv stub (Some ''/srv/uploads/clip.webm'')
       = (respond 500 (Failure ''Gemini API not properly initialized''), [])
   \<and> generateResponse noKeyEnv stub scenario3AiChat
       = (respond 500 (Failure ''Gemini API not properly initialized''), [])"
  using ai_endpoints_disabled_without_key [OF noKey_uninitialized, of stub
      "Some ''/srv/uploads/clip.webm''" scenario3AiChat]
  by (simp add: noKeyEnv_sel)

text \<open>
  With no API key in the environment, the handlers of videoController still send a
  well-formed request to the provider, and answer with the provider's error (or with
  their own validation error), not with an initialisation error.
\<close>

theorem video_endpoints_without_key_counterexample:
  "GEMINI_API_KEY noKeyEnv = None \<and> GOOGLE_AI_KEY noKeyEnv = None
   \<and> analyzeVideo noKeyEnv stub (Some ''clip.webm'') (Some ''Describe this'')
       = (respond 500 (Failure ''API key not valid. Please pass a valid API key.''),
          [GenerateContent None videoModel
             [InlineData ''webm-bytes'' ''video/webm'', Text ''Describe this'']])
   \<and> chatWithVideo noKeyEnv stub scenario3Chat
       = (respond 500 (Failure ''API key not valid. Please pass a valid API key.''),
          [GenerateContent None videoModel
             [InlineData ''webm-bytes'' ''video/mp4'', Text (''What happens?'' @ chatSuffix)]])
   \<and> analyzeVideo noKeyEnv stub None None
       = (respond 500 (Failure ''Video filename and prompt are required''), [])"
  by (simp add: analyzeVideo_def chatWithVideo_def Let_def present_def noKeyEnv_sel exampleEnv_sel
      readFileSync_def stub_sel message_or_def videoMimeType_clip scenario3Chat_def)

text \<open>
  C7, as amended. POST /api/video/chat is identified by \<open>filename\<close>: a request with a
  non-empty filename and question that names a stored file is answered, when
  generate-content answers, with status 200 and \<open>{success, response: {text, timestamp}}\<close>;
  a request without a filename fails validation with status 500 and the error
  \<open>Video filename and question are required\<close>, whether or not it carries a videoUri.
\<close>

theorem video_chat_requires_filename:
  "(present (cb_filename b) = Some name \<and> present (cb_question b) = Some question
      \<and> files e (uploadPath e name) = Some (File video)
      \<and> generateContent p (GEMINI_API_KEY e) videoModel
            [InlineData video ''video/mp4'', Text (question @ chatSuffix)] = Inr (Some answer)
    \<longrightarrow> fst (chatWithVideo e p b)
          = respond 200 (ReplyOk \<lparr>rp_text = answer, rp_timestamp = now e, rp_type = None\<rparr>))
   \<and> (present (cb_filename b) = None
    \<longrightarrow> chatWithVideo e p b
          = (respond 500 (Failure ''Video filename and question are required''), []))"
  by (simp add: chatWithVideo_def Let_def readFileSync_def message_or_def)

text \<open>
  The body the client posts (videoUri, question, chatHistory, no filename) fails
  validation.
\<close>

theorem video_chat_videoUri_counterexample:
  "chatWithVideo exampleEnv stub
      (clientChatBody ''blob:http://localhost:5173/0a1b2c'' ''What happens?'' scenario3)
     = (respond 500 (Failure ''Video filename and question are required''), [])"
  by (simp add: chatWithVideo_def Let_def clientChatBody_def present_def message_or_def)

theorem video_chat_requires_filename_witness:
  "fst (chatWithVideo exampleEnv stub scenario3Chat)
     = respond 200 (ReplyOk \<lparr>rp_text = ''A cat runs.'', rp_timestamp = 1700000000000, rp_type = None\<rparr>)
   \<and> fst (chatWithVideo exampleEnv stub
        (clientChatBody ''blob:http://localhost:5173/0a1b2c'' ''What happens?'' scenario3))
     = respond 500 (Failure ''Video filename and question are required'')"
proof -
  have "fst (chatWithVideo exampleEnv stub scenario3Chat)
     = respond 200 (ReplyOk \<lparr>rp_text = ''A cat runs.'', rp_timestamp = now exampleEnv, rp_type = None\<rparr>)"
    using video_chat_requires_filename [where e = exampleEnv and p = stub and b = scenario3Chat
        and name = "''clip.webm''" and question = "''What happens?''" and video = "''webm-bytes''"
        and answer = "''A cat runs.''", THEN conjunct1]
    by (simp add: scenario3Chat_def present_def exampleEnv_sel stub_sel)
  moreover have "chatWithVideo exampleEnv stub
        (clientChatBody ''blob:http://localhost:5173/0a1b2c'' ''What happens?'' scenario3)
     = (respond 500 (Failure ''Video filename and question are required''), [])"
    using video_chat_requires_filename [where e = exampleEnv and p = stub
        and b = "clientChatBody ''blob:http://localhost:5173/0a1b2c'' ''What happens?'' scenario3",
        THEN conjunct2]
    by (simp add: clientChatBody_def present_def)
  ultimately show ?thesis by (simp add: exampleEnv_sel)
qed

section \<open>Status codes of rejected requests\<close>

text \<open>
  C5, as amended. With the API initialised, the handlers of aiController answer 400 to
  a missing videoPath, a path that does not exist, an empty file, a missing videoUri
  and a missing question. uploadVideo answers 400 to a request without a file and to a
  disallowed mimetype. The handlers analyzeVideo and chatWithVideo of videoController
  answer 500, not 400, when filename, prompt or question is missing and when the named
  file does not exist. None of these requests reaches the provider.
\<close>

theorem validation_statuses:
  "(initialized e \<and> present videoPath = None
      \<longrightarrow> analyzeVideoContent e p videoPath = (respond 400 (Failure ''Video path is required''), []))
   \<and> (initialized e \<and> present videoPath = Some path \<and> files e path = None
      \<longrightarrow> analyzeVideoContent e p videoPath
            = (respond 400 (Failure ''Video file not found or not accessible''), []))
   \<and> (initialized e \<and> present videoPath = Some path \<and> files e path = Some entry
          \<and> statSize entry = 0
      \<longrightarrow> analyzeVideoContent e p videoPath = (respond 400 (Failure ''Video file is empty''), []))
   \<and> (initialized e \<and> present (cb_videoUri b) = None
      \<longrightarrow> generateResponse e p b = (respond 400 (Failure ''Video URI is required''), []))
   \<and> (initialized e \<and> present (cb_videoUri b) = Some uri \<and> present (cb_question b) = None
      \<longrightarrow> generateResponse e p b = (respond 400 (Failure ''Question is required''), []))
   \<and> uploadVideo e None = (respond 400 (Failure ''No video file uploaded''), e)
   \<and> (mimetype upl \<notin> set allowedTypes
      \<longrightarrow> uploadVideo e (Some upl)
            = (respond 400 (Failure ''Only MP4, WebM and MOV video files are allowed''), e))
   \<and> (present filename = None \<or> present prompt = None
      \<longrightarrow> analyzeVideo e p filename prompt
            = (respond 500 (Failure ''Video filename and prompt are required''), []))
   \<and> (present filename = Some name \<and> present prompt = Some promptText
          \<and> files e (uploadPath e name) = None
      \<longrightarrow> analyzeVideo e p filename prompt = (respond 500 (Failure ''Video file not found''), []))
   \<and> (present (cb_filename b) = None \<or> present (cb_question b) = None
      \<longrightarrow> chatWithVideo e p b
            = (respond 500 (Failure ''Video filename and question are required''), []))
   \<and> (present (cb_filename b) = Some name \<and> present (cb_question b) = Some question
          \<and> files e (uploadPath e name) = None
      \<longrightarrow> chatWithVideo e p b = (respond 500 (Failure ''Video file not found''), []))"
proof (intro conjI impI)
  show "uploadVideo e None = (respond 400 (Failure ''No video file uploaded''), e)"
    by (simp add: uploadVideo_def upload_def message_or_def)
qed (auto simp: analyzeVideoContent_def generateResponse_def uploadVideo_def upload_def
      analyzeVideo_def chatWithVideo_def message_or_def Let_def split: option.splits)

text \<open>
  On /api/video/analyze and /api/video/chat a missing filename, prompt or question and
  a file that does not exist are answered with 500, and on /api/ai/analyze a request
  made before the API is initialised is answered with 500 even when its videoPath is
  missing.
\<close>

theorem video_validation_status_counterexample:
  "status (fst (analyzeVideo exampleEnv stub None (Some ''Describe this''))) = 500
   \<and> status (fst (analyzeVideo exampleEnv stub (Some ''clip.webm'') None)) = 500
   \<and> status (fst (analyzeVideo exampleEnv stub (Some ''missing.mp4'') (Some ''Describe this''))) = 500
   \<and> status (fst (chatWithVideo exampleEnv stub noQuestionChat)) = 500
   \<and> status (fst (chatWithVideo exampleEnv stub missingFileChat)) = 500
   \<and> status (fst (analyzeVideoContent noKeyEnv stub None)) = 500"
  by (simp add: analyzeVideo_def chatWithVideo_def analyzeVideoContent_def initialized_def
      truthy_def noKeyEnv_sel Let_def present_def exampleEnv_sel respond_def
      noQuestionChat_def missingFileChat_def)

theorem validation_statuses_witness:
  "analyzeVideoContent exampleEnv stub None = (respond 400 (Failure ''Video path is required''), [])
   \<and> analyzeVideoContent exampleEnv stub (Some ''/srv/uploads/missing.mp4'')
       = (respond 400 (Failure ''Video file not found or not accessible''), [])
   \<and> analyzeVideoContent exampleEnv stub (Some ''/srv/uploads/empty.mp4'')
       = (respond 400 (Failure ''Video file is empty''), [])
   \<and> generateResponse exampleEnv stub emptyChat = (respond 400 (Failure ''Video URI is required''), [])
   \<and> generateResponse exampleEnv stub noQuestionChat = (respond 400 (Failure ''Question is required''), [])
   \<and> uploadVideo exampleEnv None = (respond 400 (Failure ''No video file uploaded''), exampleEnv)
   \<and> uploadVideo exampleEnv (Some textUpload)
       = (respond 400 (Failure ''Only MP4, WebM and MOV video files are allowed''), exampleEnv)
   \<and> analyzeVideo exampleEnv stub None (Some ''Describe this'')
       = (respond 500 (Failure ''Video filename and prompt are required''), [])
   \<and> analyzeVideo exampleEnv stub (Some ''missing.mp4'') (Some ''Describe this'')
       = (respond 500 (Failure ''Video file not found''), [])
   \<and> chatWithVideo exampleEnv stub emptyChat
       = (respond 500 (Failure ''Video filename and question are required''), [])
   \<and> chatWithVideo exampleEnv stub missingFileChat
       = (respond 500 (Failure ''Video file not found''), [])"
proof -
  note missing = validation_statuses [where e = exampleEnv and p = stub and videoPath = None
      and b = emptyChat and upl = textUpload and filename = None
      and prompt = "Some ''Describe this''"]
  note absent = validation_statuses [where e = exampleEnv and p = stub
      and videoPath = "Some ''/srv/uploads/missing.mp4''" and path = "''/srv/uploads/missing.mp4''"
      and b = noQuestionChat and uri = "''https://provider.example/files/abc''"
      and filename = "Some ''missing.mp4''" and name = "''missing.mp4''"
      and prompt = "Some ''Describe this''" and promptText = "''Describe this''"]
  note empty = validation_statuses [where e = exampleEnv and p = stub
      and videoPath = "Some ''/srv/uploads/empty.mp4''" and path = "''/srv/uploads/empty.mp4''"
      and entry = "File []" and b = missingFileChat and name = "''missing.mp4''"
      and question = "''What happens?''"]
  show ?thesis
    using missing absent empty
    by (simp add: example_initialized present_def exampleEnv_sel statSize_def emptyChat_def
        noQuestionChat_def missingFileChat_def textUpload_def allowedTypes_def)
qed

section \<open>Storing an upload\<close>

lemma respond_inject: "respond c b = respond c' b' \<longleftrightarrow> c = c' \<and> b = b'"
  by (simp add: respond_def)

lemma decimal_now: "decimal 1700000000000 = ''1700000000000''"
  by (simp add: decimal.simps digit_def)

lemma decimal_random: "decimal 123456789 = ''123456789''"
  by (simp add: decimal.simps digit_def)

lemma extname_clip_webm: "extname ''clip.webm'' = ''.webm''"
  by (simp add: extname_def basename_def)

lemma storageFilename_webm:
  "storageFilename exampleEnv webmUpload = ''1700000000000-123456789.webm''"
  by (simp add: storageFilename_def exampleEnv_sel decimal_now decimal_random webmUpload_def
      extname_clip_webm)

lemma webmUpload_sel:
  "mimetype webmUpload = ''video/webm''" "length (content webmUpload) = 10"
  by (simp_all add: webmUpload_def)

lemma openError_writable:
  assumes dir: "files e (uploadsDir e) = None \<or> (\<exists>n. files e (uploadsDir e) = Some (Directory n))"
    and other: "path \<noteq> uploadsDir e"
    and free: "\<forall>m. files e path \<noteq> Some (Directory m)"
  shows "openError (ensureUploadsDir e) path = None"
proof (cases "files e (uploadsDir e)")
  case None
  then show ?thesis
    using other free
    by (simp add: openError_def ensureUploadsDir_def existsSync_def
        split: option.splits fs_entry.splits)
next
  case (Some entry)
  with dir obtain n where "files e (uploadsDir e) = Some (Directory n)" by auto
  then show ?thesis
    using free
    by (simp add: openError_def ensureUploadsDir_def existsSync_def
        split: option.splits fs_entry.splits)
qed

text \<open>
  C6, as amended. For every uploaded file whose declared mimetype is in the allow-list
  {video/mp4, video/webm, video/quicktime} and whose size is at most 25 MiB, when the
  file can be written (the uploads path is a directory or absent, and the generated
  path is neither the uploads path nor a directory), the upload succeeds with status
  200, the generated filename ends in \<open>path.extname\<close> of the original name, the
  reported size and mimetype are the file's, and the bytes are stored under the
  reported path. For every file with any other mimetype the upload fails with status
  400 and the filter's error, returns no asset and stores nothing.
\<close>

theorem upload_store:
  "(mimetype upl \<in> {''video/mp4'', ''video/webm'', ''video/quicktime''}
      \<and> length (content upl) \<le> 25 * 1024 * 1024
      \<and> (files e (uploadsDir e) = None \<or> (\<exists>n. files e (uploadsDir e) = Some (Directory n)))
      \<and> uploadPath e (storageFilename e upl) \<noteq> uploadsDir e
      \<and> (\<forall>m. files e (uploadPath e (storageFilename e upl)) \<noteq> Some (Directory m))
    \<longrightarrow> (\<exists>info. fst (uploadVideo e (Some upl)) = respond 200 (UploadOk info)
          \<and> suffix (extname (originalname upl)) (fi_filename info)
          \<and> fi_path info = uploadPath e (fi_filename info)
          \<and> fi_size info = length (content upl)
          \<and> fi_mimetype info = mimetype upl
          \<and> files (snd (uploadVideo e (Some upl))) (fi_path info) = Some (File (content upl))))
   \<and> (mimetype upl \<notin> {''video/mp4'', ''video/webm'', ''video/quicktime''}
    \<longrightarrow> uploadVideo e (Some upl)
          = (respond 400 (Failure ''Only MP4, WebM and MOV video files are allowed''), e))"
proof (intro conjI impI)
  assume ok: "mimetype upl \<in> {''video/mp4'', ''video/webm'', ''video/quicktime''}
      \<and> length (content upl) \<le> 25 * 1024 * 1024
      \<and> (files e (uploadsDir e) = None \<or> (\<exists>n. files e (uploadsDir e) = Some (Directory n)))
      \<and> uploadPath e (storageFilename e upl) \<noteq> uploadsDir e
      \<and> (\<forall>m. files e (uploadPath e (storageFilename e upl)) \<noteq> Some (Directory m))"
  then have allowed: "mimetype upl \<in> set allowedTypes"
    by (simp add: allowedTypes_def)
  from ok have small: "\<not> length (content upl) > fileSizeLimit"
    by (simp add: fileSizeLimit_def)
  from ok have opened: "openError (ensureUploadsDir e) (uploadPath e (storageFilename e upl)) = None"
    by (intro openError_writable) simp_all
  let ?info = "\<lparr>fi_filename = storageFilename e upl,
                 fi_path = uploadPath e (storageFilename e upl),
                 fi_size = length (content upl), fi_mimetype = mimetype upl\<rparr>"
  have run: "uploadVideo e (Some upl)
      = (respond 200 (UploadOk ?info),
         (ensureUploadsDir e)\<lparr>files := (files (ensureUploadsDir e))
            (uploadPath e (storageFilename e upl) \<mapsto> File (content upl))\<rparr>)"
    using allowed small opened by (simp add: uploadVideo_def upload_def Let_def)
  have "suffix (extname (originalname upl)) (fi_filename ?info)"
    by (simp add: storageFilename_def Let_def suffix_def)
  then show "\<exists>info. fst (uploadVideo e (Some upl)) = respond 200 (UploadOk info)
          \<and> suffix (extname (originalname upl)) (fi_filename info)
          \<and> fi_path info = uploadPath e (fi_filename info)
          \<and> fi_size info = length (content upl)
          \<and> fi_mimetype info = mimetype upl
          \<and> files (snd (uploadVideo e (Some upl))) (fi_path info) = Some (File (content upl))"
    unfolding run by (intro exI [of _ ?info]) simp
next
  assume "mimetype upl \<notin> {''video/mp4'', ''video/webm'', ''video/quicktime''}"
  then show "uploadVideo e (Some upl)
          = (respond 400 (Failure ''Only MP4, WebM and MOV video files are allowed''), e)"
    by (simp add: uploadVideo_def upload_def allowedTypes_def message_or_def)
qed

lemma example_writable:
  "openError (ensureUploadsDir exampleEnv) (uploadPath exampleEnv name) = None"
  by (intro openError_writable) (simp_all add: exampleEnv_sel)

lemma webmUpload_accepted:
  "fst (uploadVideo exampleEnv (Some webmUpload))
     = respond 200 (UploadOk \<lparr>fi_filename = storageFilename exampleEnv webmUpload,
         fi_path = uploadPath exampleEnv (storageFilename exampleEnv webmUpload),
         fi_size = length (content webmUpload), fi_mimetype = mimetype webmUpload\<rparr>)"
  by (simp add: uploadVideo_def upload_def Let_def webmUpload_sel allowedTypes_def
      fileSizeLimit_def example_writable)

text \<open>
  An mp4 of 25 MiB and one byte has an allowed mimetype and is refused; and a small
  webm is refused when a regular file stands where the uploads directory should be.
\<close>

theorem upload_oversized_counterexample:
  "mimetype oversizedUpload \<in> {''video/mp4'', ''video/webm'', ''video/quicktime''}
   \<and> fst (uploadVideo exampleEnv (Some oversizedUpload)) = respond 400 (Failure ''File too large'')
   \<and> mimetype webmUpload \<in> {''video/mp4'', ''video/webm'', ''video/quicktime''}
   \<and> status (fst (uploadVideo blockedEnv (Some webmUpload))) = 400"
proof -
  have "fst (uploadVideo exampleEnv (Some oversizedUpload)) = respond 400 (Failure ''File too large'')"
    by (simp add: uploadVideo_def upload_def Let_def example_writable oversizedUpload_def
        allowedTypes_def fileSizeLimit_def message_or_def)
  moreover have "status (fst (uploadVideo blockedEnv (Some webmUpload))) = 400"
    by (simp add: uploadVideo_def upload_def Let_def openError_def ensureUploadsDir_def
        existsSync_def blockedEnv_def allowedTypes_def webmUpload_def respond_def exampleEnv_sel
        split: option.splits)
  ultimately show ?thesis
    by (simp add: oversizedUpload_def webmUpload_def)
qed

theorem upload_store_witness:
  "(\<exists>info. fst (uploadVideo exampleEnv (Some webmUpload)) = respond 200 (UploadOk info)
       \<and> fi_filename info = ''1700000000000-123456789.webm''
       \<and> suffix ''.webm'' (fi_filename info)
       \<and> files (snd (uploadVideo exampleEnv (Some webmUpload)))
            ''/srv/uploads/1700000000000-123456789.webm'' = Some (File ''webm-bytes''))
   \<and> uploadVideo exampleEnv (Some textUpload)
       = (respond 400 (Failure ''Only MP4, WebM and MOV video files are allowed''), exampleEnv)"
proof -
  have name: "fst (uploadVideo exampleEnv (Some webmUpload))
      = respond 200 (UploadOk \<lparr>fi_filename = ''1700000000000-123456789.webm'',
          fi_path = ''/srv/uploads/1700000000000-123456789.webm'', fi_size = 10,
          fi_mimetype = ''video/webm''\<rparr>)"
    by (simp add: webmUpload_accepted storageFilename_webm exampleEnv_sel webmUpload_sel)
  have writable: "mimetype webmUpload \<in> {''video/mp4'', ''video/webm'', ''video/quicktime''}
      \<and> length (content webmUpload) \<le> 25 * 1024 * 1024
      \<and> (files exampleEnv (uploadsDir exampleEnv) = None
           \<or> (\<exists>n. files exampleEnv (uploadsDir exampleEnv) = Some (Directory n)))
      \<and> uploadPath exampleEnv (storageFilename exampleEnv webmUpload) \<noteq> uploadsDir exampleEnv
      \<and> (\<forall>m. files exampleEnv (uploadPath exampleEnv (storageFilename exampleEnv webmUpload))
             \<noteq> Some (Directory m))"
    by (simp add: webmUpload_sel storageFilename_webm exampleEnv_sel)
  from upload_store [of webmUpload exampleEnv, THEN conjunct1, THEN mp, OF writable]
  obtain info where info: "fst (uploadVideo exampleEnv (Some webmUpload)) = respond 200 (UploadOk info)"
    and suf: "suffix (extname (originalname webmUpload)) (fi_filename info)"
    and path: "fi_path info = uploadPath exampleEnv (fi_filename info)"
    and stored: "files (snd (uploadVideo exampleEnv (Some webmUpload))) (fi_path info)
                   = Some (File (content webmUpload))"
    by blast
  from info name have "info = \<lparr>fi_filename = ''1700000000000-123456789.webm'',
          fi_path = ''/srv/uploads/1700000000000-123456789.webm'',
          fi_size = 10, fi_mimetype = ''video/webm''\<rparr>"
    by (metis respond_inject body.inject)
  then have fn: "fi_filename info = ''1700000000000-123456789.webm''"
    by simp
  have first: "\<exists>info. fst (uploadVideo exampleEnv (Some webmUpload)) = respond 200 (UploadOk info)
       \<and> fi_filename info = ''1700000000000-123456789.webm''
       \<and> suffix ''.webm'' (fi_filename info)
       \<and> files (snd (uploadVideo exampleEnv (Some webmUpload)))
            ''/srv/uploads/1700000000000-123456789.webm'' = Some (File ''webm-bytes'')"
    using info suf path stored fn
    by (intro exI [of _ info]) (simp add: webmUpload_def extname_clip_webm exampleEnv_sel)
  have second: "uploadVideo exampleEnv (Some textUpload)
       = (respond 400 (Failure ''Only MP4, WebM and MOV video files are allowed''), exampleEnv)"
    using upload_store [of textUpload exampleEnv, THEN conjunct2]
    by (simp add: textUpload_def)
  show ?thesis using first second by blast
qed

section \<open>Cleaning up the remote file\<close>

lemma waitForProcessing_done:
  "\<not> (rf_state f = ''PROCESSING'' \<and> attempts < maxAttempts)
     \<Longrightarrow> waitForProcessing p name f attempts tr = (Inr (f, attempts), tr)"
  by (subst waitForProcessing.simps) (simp only: if_False)

lemma waitForProcessing_throw:
  "rf_state f = ''PROCESSING'' \<and> attempts < maxAttempts
     \<Longrightarrow> getFile p name (attempts + 1) = Inl err
     \<Longrightarrow> waitForProcessing p name f attempts tr
           = (Inl err, tr @ [Sleep pollInterval, GetFile name])"
  by (subst waitForProcessing.simps) simp

lemma waitForProcessing_round:
  "rf_state f = ''PROCESSING'' \<and> attempts < maxAttempts
     \<Longrightarrow> getFile p name (attempts + 1) = Inr f'
     \<Longrightarrow> waitForProcessing p name f attempts tr
           = waitForProcessing p name f' (attempts + 1) (tr @ [Sleep pollInterval, GetFile name])"
  by (subst waitForProcessing.simps) simp

lemma getFile_deleteFile: "getFile (p\<lparr>deleteFile := d\<rparr>) = getFile p"
  by simp

lemma waitForProcessing_deleteFile:
  "waitForProcessing (p\<lparr>deleteFile := d\<rparr>) name f attempts tr
     = waitForProcessing p name f attempts tr"
proof (induction p name f attempts tr rule: waitForProcessing.induct)
  case (1 p name f attempts tr)
  show ?case
  proof (cases "rf_state f = ''PROCESSING'' \<and> attempts < maxAttempts")
    case False
    show ?thesis
      by (simp only: waitForProcessing_done [OF False])
  next
    case True
    show ?thesis
    proof (cases "getFile p name (attempts + 1)")
      case (Inl err)
      then have "getFile (p\<lparr>deleteFile := d\<rparr>) name (attempts + 1) = Inl err"
        by (simp only: getFile_deleteFile)
      with True Inl show ?thesis
        by (simp add: waitForProcessing_throw)
    next
      case (Inr f')
      then have "getFile (p\<lparr>deleteFile := d\<rparr>) name (attempts + 1) = Inr f'"
        by (simp only: getFile_deleteFile)
      with True Inr "1.IH" [OF True Inr] show ?thesis
        by (simp add: waitForProcessing_round)
    qed
  qed
qed

lemma waitForProcessing_no_delete:
  "\<forall>ev \<in> set tr. \<not> isDeleteFile ev
     \<Longrightarrow> \<forall>ev \<in> set (snd (waitForProcessing p name f attempts tr)). \<not> isDeleteFile ev"
proof (induction p name f attempts tr rule: waitForProcessing.induct)
  case (1 p name f attempts tr)
  show ?case
  proof (cases "rf_state f = ''PROCESSING'' \<and> attempts < maxAttempts")
    case False
    show ?thesis
      using "1.prems" by (simp only: waitForProcessing_done [OF False] snd_conv)
  next
    case True
    have more: "\<forall>ev \<in> set (tr @ [Sleep pollInterval, GetFile name]). \<not> isDeleteFile ev"
      using "1.prems" by simp
    show ?thesis
    proof (cases "getFile p name (attempts + 1)")
      case (Inl err)
      with True more show ?thesis
        by (simp add: waitForProcessing_throw)
    next
      case (Inr f')
      with True "1.IH" [OF True Inr more] show ?thesis
        by (simp add: waitForProcessing_round)
    qed
  qed
qed

lemma geminiAnalyze_deleteFile:
  "fst (geminiAnalyze e (p\<lparr>deleteFile := d\<rparr>) buffer mimeType displayName)
     = fst (geminiAnalyze e p buffer mimeType displayName)"
  by (simp add: geminiAnalyze_def Let_def waitForProcessing_deleteFile
      split: sum.splits option.splits prod.splits)

lemma geminiAnalyze_cleanup:
  assumes run: "geminiAnalyze e p buffer mimeType displayName = (r, tr)"
  shows "(\<exists>err. r = Inl err \<and> (\<forall>ev \<in> set tr. \<not> isDeleteFile ev))
       \<or> (\<exists>a pre name key model ps. r = Inr a
             \<and> tr = pre @ [GenerateContent key model ps, DeleteFile name]
                    @ (case deleteFile p name of None \<Rightarrow> [] | Some err \<Rightarrow> [Warn err])
             \<and> generateContent p key model ps = Inr (Some (an_text a))
             \<and> (\<forall>ev \<in> set pre. \<not> isDeleteFile ev))"
proof (cases "uploadFile p buffer mimeType displayName")
  case (Inl err)
  with run show ?thesis by (auto simp: geminiAnalyze_def)
next
  case (Inr response)
  show ?thesis
  proof (cases response)
    case None
    with Inr run show ?thesis by (auto simp: geminiAnalyze_def)
  next
    case (Some uploaded)
    let ?tr1 = "[UploadFile buffer mimeType displayName, GetFile (rf_name uploaded)]"
    show ?thesis
    proof (cases "getFile p (rf_name uploaded) 0")
      case (Inl err)
      with Inr Some run show ?thesis by (auto simp: geminiAnalyze_def)
    next
      case file0: (Inr file0)
      obtain w tr2 where wait: "waitForProcessing p (rf_name uploaded) file0 0 ?tr1 = (w, tr2)"
        by (cases "waitForProcessing p (rf_name uploaded) file0 0 ?tr1") blast
      have "\<forall>ev \<in> set ?tr1. \<not> isDeleteFile ev" by simp
      from waitForProcessing_no_delete [OF this, of p "rf_name uploaded" file0 0]
      have clean2: "\<forall>ev \<in> set tr2. \<not> isDeleteFile ev"
        unfolding wait by simp
      show ?thesis
      proof (cases w)
        case (Inl err)
        with Inr Some file0 wait run clean2 show ?thesis
          by (auto simp: geminiAnalyze_def)
      next
        case polled: (Inr fa)
        obtain f attempts where fa: "fa = (f, attempts)" by (cases fa) blast
        show ?thesis
        proof (cases "rf_state f = ''ACTIVE''")
          case False
          with Inr Some file0 wait polled fa run clean2 show ?thesis
            by (auto simp: geminiAnalyze_def)
        next
          case True
          let ?ps = "[FileData (rf_uri f) (rf_mimeType f), Text analysisPrompt]"
          let ?tr3 = "tr2 @ [GenerateContent (GOOGLE_AI_KEY e) aiModel ?ps]"
          have clean3: "\<forall>ev \<in> set ?tr3. \<not> isDeleteFile ev"
            using clean2 by simp
          show ?thesis
          proof (cases "generateContent p (GOOGLE_AI_KEY e) aiModel ?ps")
            case (Inl err)
            with Inr Some file0 wait polled fa True run clean2 show ?thesis
              by (auto simp: geminiAnalyze_def)
          next
            case gen: (Inr result)
            show ?thesis
            proof (cases result)
              case None
              with gen Inr Some file0 wait polled fa True run clean2 show ?thesis
                by (auto simp: geminiAnalyze_def)
            next
              case answer: (Some answer)
              from answer gen Inr Some file0 wait polled fa True run
              have "r = Inr \<lparr>an_text = answer, an_videoUri = Some (rf_uri f),
                             an_timestamp = now e, an_type = Some ''initial-analysis''\<rparr>"
                and "tr = tr2 @ [GenerateContent (GOOGLE_AI_KEY e) aiModel ?ps, DeleteFile (rf_name f)]
                        @ (case deleteFile p (rf_name f) of None \<Rightarrow> [] | Some err \<Rightarrow> [Warn err])"
                by (auto simp: geminiAnalyze_def)
              moreover have "generateContent p (GOOGLE_AI_KEY e) aiModel ?ps
                  = Inr (Some (an_text \<lparr>an_text = answer, an_videoUri = Some (rf_uri f),
                             an_timestamp = now e, an_type = Some ''initial-analysis''\<rparr>))"
                using gen answer by simp
              ultimately show ?thesis using clean2 by blast
            qed
          qed
        qed
      qed
    qed
  qed
qed

lemma analyzeVideoContent_response:
  "fst (analyzeVideoContent e p videoPath) =
     (if \<not> initialized e then respond 500 (Failure ''Gemini API not properly initialized'')
      else case present videoPath of
        None \<Rightarrow> respond 400 (Failure ''Video path is required'')
      | Some path \<Rightarrow>
          (case files e path of
             None \<Rightarrow> respond 400 (Failure ''Video file not found or not accessible'')
           | Some entry \<Rightarrow>
               if statSize entry = 0 then respond 400 (Failure ''Video file is empty'')
               else
                 (case readFileSync entry of
                    Inl err \<Rightarrow> respond 500 (Failure (message_or err ''Video analysis failed''))
                  | Inr fileBuffer \<Rightarrow>
                      (case fst (geminiAnalyze e p fileBuffer (aiMimeType path) (basename path)) of
                         Inl err \<Rightarrow> respond 500 (Failure (''Gemini API Error: '' @ err))
                       | Inr analysis \<Rightarrow> respond 200 (AnalysisOk analysis)))))"
  by (simp add: analyzeVideoContent_def message_or_def
      split: option.splits sum.splits prod.splits)

lemma analyzeVideoContent_gemini:
  assumes "snd (analyzeVideoContent e p videoPath) \<noteq> []"
  shows "\<exists>buffer mimeType displayName.
           analyzeVideoContent e p videoPath =
             (case geminiAnalyze e p buffer mimeType displayName of
                (Inl err, tr) \<Rightarrow> (respond 500 (Failure (''Gemini API Error: '' @ err)), tr)
              | (Inr analysis, tr) \<Rightarrow> (respond 200 (AnalysisOk analysis), tr))"
proof (cases "initialized e")
  case False
  with assms show ?thesis by (simp add: analyzeVideoContent_def)
next
  case init: True
  show ?thesis
  proof (cases "present videoPath")
    case None
    with init assms show ?thesis by (simp add: analyzeVideoContent_def)
  next
    case path: (Some path)
    show ?thesis
    proof (cases "files e path")
      case None
      with init path assms show ?thesis by (simp add: analyzeVideoContent_def)
    next
      case entry: (Some entry)
      show ?thesis
      proof (cases "statSize entry = 0")
        case True
        with init path entry assms show ?thesis by (simp add: analyzeVideoContent_def)
      next
        case size: False
        show ?thesis
        proof (cases "readFileSync entry")
          case (Inl err)
          with init path entry size assms show ?thesis by (simp add: analyzeVideoContent_def)
        next
          case (Inr fileBuffer)
          with init path entry size
          have "analyzeVideoContent e p videoPath =
             (case geminiAnalyze e p fileBuffer (aiMimeType path) (basename path) of
                (Inl err, tr) \<Rightarrow> (respond 500 (Failure (''Gemini API Error: '' @ err)), tr)
              | (Inr analysis, tr) \<Rightarrow> (respond 200 (AnalysisOk analysis), tr))"
            by (simp add: analyzeVideoContent_def message_or_def split: prod.splits sum.splits)
          then show ?thesis by blast
        qed
      qed
    qed
  qed
qed

lemma analyzeVideoContent_events:
  assumes run: "analyzeVideoContent e p videoPath = (resp, tr)" and "tr \<noteq> []"
  shows "\<exists>buffer mimeType displayName r.
             geminiAnalyze e p buffer mimeType displayName = (r, tr)
             \<and> resp = (case r of
                         Inl err \<Rightarrow> respond 500 (Failure (''Gemini API Error: '' @ err))
                       | Inr analysis \<Rightarrow> respond 200 (AnalysisOk analysis))"
proof -
  from assms have "snd (analyzeVideoContent e p videoPath) \<noteq> []" by simp
  from analyzeVideoContent_gemini [OF this]
  obtain buffer mimeType displayName where eq:
    "analyzeVideoContent e p videoPath =
       (case geminiAnalyze e p buffer mimeType displayName of
          (Inl err, tr) \<Rightarrow> (respond 500 (Failure (''Gemini API Error: '' @ err)), tr)
        | (Inr analysis, tr) \<Rightarrow> (respond 200 (AnalysisOk analysis), tr))"
    by blast
  obtain r tr' where gem: "geminiAnalyze e p buffer mimeType displayName = (r, tr')"
    by (cases "geminiAnalyze e p buffer mimeType displayName") blast
  from eq gem run have "tr' = tr"
    and "resp = (case r of
                   Inl err \<Rightarrow> respond 500 (Failure (''Gemini API Error: '' @ err))
                 | Inr analysis \<Rightarrow> respond 200 (AnalysisOk analysis))"
    by (auto split: sum.splits)
  with gem show ?thesis by blast
qed

text \<open>
  C8. In analyzeVideoContent the answer does not depend on what deleting the remote
  file does: with any other outcome \<open>d\<close> of \<^verbatim>\<open>deleteFile\<close> the status and the body
  are the same. On every request whose generate-content call answers (API initialised,
  a non-empty file at the path, the upload answered with a file, the file ACTIVE on
  poll \<open>n \<le> 30\<close> after PROCESSING before, generate-content answering \<open>answer\<close>), the
  handler deletes the remote file right after that call and answers 200 with
  \<open>answer\<close> as the analysis text, whatever the deletion does; a deletion that fails
  with \<open>err\<close> adds the warning \<open>Warn err\<close> as the last event and nothing else.
  Conversely, whenever the file \<open>name\<close> is deleted, the deletion directly follows a
  generate-content call that answered, the status is 200 and the body is the analysis
  with the text of that answer.
\<close>

theorem cleanup_best_effort:
  "fst (analyzeVideoContent e (p\<lparr>deleteFile := d\<rparr>) videoPath)
     = fst (analyzeVideoContent e p videoPath)
   \<and> (initialized e \<and> present videoPath = Some path
        \<and> files e path = Some (File buffer) \<and> buffer \<noteq> []
        \<and> uploadFile p buffer (aiMimeType path) (basename path) = Inr (Some uploaded)
        \<and> n \<le> 30
        \<and> (\<forall>k \<le> n. getFile p (rf_name uploaded) k = Inr (f k))
        \<and> (\<forall>k < n. rf_state (f k) = ''PROCESSING'')
        \<and> rf_state (f n) = ''ACTIVE''
        \<and> generateContent p (GOOGLE_AI_KEY e) aiModel
             [FileData (rf_uri (f n)) (rf_mimeType (f n)), Text analysisPrompt] = Inr (Some answer)
      \<longrightarrow> analyzeVideoContent e p videoPath
            = (respond 200
                 (AnalysisOk \<lparr>an_text = answer, an_videoUri = Some (rf_uri (f n)),
                              an_timestamp = now e, an_type = Some ''initial-analysis''\<rparr>),
               [UploadFile buffer (aiMimeType path) (basename path), GetFile (rf_name uploaded)]
                 @ rounds (rf_name uploaded) n
                 @ [GenerateContent (GOOGLE_AI_KEY e) aiModel
                      [FileData (rf_uri (f n)) (rf_mimeType (f n)), Text analysisPrompt],
                    DeleteFile (rf_name (f n))]
                 @ (case deleteFile p (rf_name (f n)) of
                      None \<Rightarrow> []
                    | Some err \<Rightarrow> [Warn err])))
   \<and> (DeleteFile name \<in> set (snd (analyzeVideoContent e p videoPath))
      \<longrightarrow> status (fst (analyzeVideoContent e p videoPath)) = 200
          \<and> (\<exists>a pre key model ps.
                body (fst (analyzeVideoContent e p videoPath)) = AnalysisOk a
                \<and> generateContent p key model ps = Inr (Some (an_text a))
                \<and> snd (analyzeVideoContent e p videoPath)
                    = pre @ [GenerateContent key model ps, DeleteFile name]
                        @ (case deleteFile p name of None \<Rightarrow> [] | Some err \<Rightarrow> [Warn err]))
          \<and> (\<forall>err. deleteFile p name = Some err
                \<longrightarrow> last (snd (analyzeVideoContent e p videoPath)) = Warn err)
          \<and> (deleteFile p name = None
                \<longrightarrow> last (snd (analyzeVideoContent e p videoPath)) = DeleteFile name))"
proof (intro conjI impI)
  show "fst (analyzeVideoContent e (p\<lparr>deleteFile := d\<rparr>) videoPath)
     = fst (analyzeVideoContent e p videoPath)"
    by (simp only: analyzeVideoContent_response geminiAnalyze_deleteFile)
next
  assume h: "initialized e \<and> present videoPath = Some path
        \<and> files e path = Some (File buffer) \<and> buffer \<noteq> []
        \<and> uploadFile p buffer (aiMimeType path) (basename path) = Inr (Some uploaded)
        \<and> n \<le> 30
        \<and> (\<forall>k \<le> n. getFile p (rf_name uploaded) k = Inr (f k))
        \<and> (\<forall>k < n. rf_state (f k) = ''PROCESSING'')
        \<and> rf_state (f n) = ''ACTIVE''
        \<and> generateContent p (GOOGLE_AI_KEY e) aiModel
             [FileData (rf_uri (f n)) (rf_mimeType (f n)), Text analysisPrompt] = Inr (Some answer)"
  then have init: "initialized e" and path: "present videoPath = Some path"
    and stored: "files e path = Some (File buffer)" and nonempty: "buffer \<noteq> []"
    and up: "uploadFile p buffer (aiMimeType path) (basename path) = Inr (Some uploaded)"
    and n: "n \<le> maxAttempts"
    and reads: "\<forall>k \<le> n. getFile p (rf_name uploaded) k = Inr (f k)"
    and before: "\<forall>k < n. rf_state (f k) = ''PROCESSING''"
    and active: "rf_state (f n) = ''ACTIVE''"
    and gen: "generateContent p (GOOGLE_AI_KEY e) aiModel
             [FileData (rf_uri (f n)) (rf_mimeType (f n)), Text analysisPrompt] = Inr (Some answer)"
    by (simp_all add: maxAttempts_def)
  show "analyzeVideoContent e p videoPath
            = (respond 200
                 (AnalysisOk \<lparr>an_text = answer, an_videoUri = Some (rf_uri (f n)),
                              an_timestamp = now e, an_type = Some ''initial-analysis''\<rparr>),
               [UploadFile buffer (aiMimeType path) (basename path), GetFile (rf_name uploaded)]
                 @ rounds (rf_name uploaded) n
                 @ [GenerateContent (GOOGLE_AI_KEY e) aiModel
                      [FileData (rf_uri (f n)) (rf_mimeType (f n)), Text analysisPrompt],
                    DeleteFile (rf_name (f n))]
                 @ (case deleteFile p (rf_name (f n)) of
                      None \<Rightarrow> []
                    | Some err \<Rightarrow> [Warn err]))"
    by (simp only: analyze_reaches_gemini [OF init path stored nonempty]
        geminiAnalyze_active [OF up reads n before active gen] prod.case sum.case)
next
  assume deleted: "DeleteFile name \<in> set (snd (analyzeVideoContent e p videoPath))"
  obtain resp tr where run: "analyzeVideoContent e p videoPath = (resp, tr)"
    by (cases "analyzeVideoContent e p videoPath") blast
  from deleted run have in_tr: "DeleteFile name \<in> set tr" by simp
  then have "tr \<noteq> []" by auto
  from analyzeVideoContent_events [OF run this]
  obtain buffer mimeType displayName r
    where gem: "geminiAnalyze e p buffer mimeType displayName = (r, tr)"
      and resp: "resp = (case r of
                         Inl err \<Rightarrow> respond 500 (Failure (''Gemini API Error: '' @ err))
                       | Inr analysis \<Rightarrow> respond 200 (AnalysisOk analysis))"
    by blast
  from in_tr have "\<not> (\<forall>ev \<in> set tr. \<not> isDeleteFile ev)"
    by (metis isDeleteFile.simps(1))
  with geminiAnalyze_cleanup [OF gem]
  obtain a pre name' key model ps where r: "r = Inr a"
    and tr: "tr = pre @ [GenerateContent key model ps, DeleteFile name']
                @ (case deleteFile p name' of None \<Rightarrow> [] | Some err \<Rightarrow> [Warn err])"
    and answered: "generateContent p key model ps = Inr (Some (an_text a))"
    and pre: "\<forall>ev \<in> set pre. \<not> isDeleteFile ev"
    by blast
  have "DeleteFile name \<notin> set pre"
    using pre by (metis isDeleteFile.simps(1))
  with in_tr tr have same: "name' = name"
    by (auto split: option.splits)
  show "status (fst (analyzeVideoContent e p videoPath)) = 200"
    using run resp r by (simp add: respond_def)
  have "body (fst (analyzeVideoContent e p videoPath)) = AnalysisOk a"
    using run resp r by (simp add: respond_def)
  moreover have "snd (analyzeVideoContent e p videoPath)
        = pre @ [GenerateContent key model ps, DeleteFile name]
            @ (case deleteFile p name of None \<Rightarrow> [] | Some err \<Rightarrow> [Warn err])"
    using run tr same by simp
  ultimately show "\<exists>a pre key model ps.
        body (fst (analyzeVideoContent e p videoPath)) = AnalysisOk a
        \<and> generateContent p key model ps = Inr (Some (an_text a))
        \<and> snd (analyzeVideoContent e p videoPath)
            = pre @ [GenerateContent key model ps, DeleteFile name]
                @ (case deleteFile p name of None \<Rightarrow> [] | Some err \<Rightarrow> [Warn err])"
    using answered by blast
  show "\<forall>err. deleteFile p name = Some err
          \<longrightarrow> last (snd (analyzeVideoContent e p videoPath)) = Warn err"
    using run tr same by simp
  show "deleteFile p name = None
          \<Longrightarrow> last (snd (analyzeVideoContent e p videoPath)) = DeleteFile name"
    using run tr same by simp
qed

lemma failingCleanup_sel:
  "uploadFile failingCleanup buffer mimeType displayName = Inr (Some (stubFile ''PROCESSING''))"
  "getFile failingCleanup name k
     = Inr (stubFile (if k < 2 then [''PROCESSING'', ''ACTIVE''] ! k else ''ACTIVE''))"
  "generateContent failingCleanup (Some key) model ps = Inr (Some ''A cat runs.'')"
  "deleteFile failingCleanup name = Some ''cleanup failed''"
  by (simp_all add: failingCleanup_def stubProvider_def)

theorem cleanup_best_effort_witness:
  "analyzeVideoContent exampleEnv failingCleanup (Some ''/srv/uploads/clip.webm'')
     = (respond 200
          (AnalysisOk \<lparr>an_text = ''A cat runs.'',
                       an_videoUri = Some ''https://provider.example/files/abc'',
                       an_timestamp = 1700000000000, an_type = Some ''initial-analysis''\<rparr>),
        [UploadFile ''webm-bytes'' ''video/webm'' ''clip.webm'', GetFile ''files/abc'',
         Sleep 2000, GetFile ''files/abc'',
         GenerateContent (Some ''test-key'') aiModel
           [FileData ''https://provider.example/files/abc'' ''video/webm'', Text analysisPrompt],
         DeleteFile ''files/abc'', Warn ''cleanup failed''])
   \<and> deleteFile failingCleanup ''files/abc'' = Some ''cleanup failed''
   \<and> status (fst (analyzeVideoContent exampleEnv failingCleanup (Some ''/srv/uploads/clip.webm''))) = 200
   \<and> last (snd (analyzeVideoContent exampleEnv failingCleanup (Some ''/srv/uploads/clip.webm'')))
       = Warn ''cleanup failed''
   \<and> fst (analyzeVideoContent exampleEnv (failingCleanup\<lparr>deleteFile := \<lambda>name. None\<rparr>)
             (Some ''/srv/uploads/clip.webm''))
       = fst (analyzeVideoContent exampleEnv failingCleanup (Some ''/srv/uploads/clip.webm''))"
proof -
  let ?path = "''/srv/uploads/clip.webm''"
  let ?f = "\<lambda>k. stubFile (if k < 2 then [''PROCESSING'', ''ACTIVE''] ! k else ''ACTIVE'')"
  have mt: "aiMimeType ?path = ''video/webm''"
    by (simp add: aiMimeType_def extname_clip lower_webm)
  have dn: "basename ?path = ''clip.webm''"
    by (simp add: basename_def)
  have reached: "initialized exampleEnv \<and> present (Some ?path) = Some ?path
        \<and> files exampleEnv ?path = Some (File ''webm-bytes'') \<and> ''webm-bytes'' \<noteq> []
        \<and> uploadFile failingCleanup ''webm-bytes'' (aiMimeType ?path) (basename ?path)
             = Inr (Some (stubFile ''PROCESSING''))
        \<and> (1::nat) \<le> 30
        \<and> (\<forall>k \<le> 1. getFile failingCleanup (rf_name (stubFile ''PROCESSING'')) k = Inr (?f k))
        \<and> (\<forall>k < 1. rf_state (?f k) = ''PROCESSING'')
        \<and> rf_state (?f 1) = ''ACTIVE''
        \<and> generateContent failingCleanup (GOOGLE_AI_KEY exampleEnv) aiModel
             [FileData (rf_uri (?f 1)) (rf_mimeType (?f 1)), Text analysisPrompt]
             = Inr (Some ''A cat runs.'')"
    by (simp add: example_initialized example_present example_stored failingCleanup_sel
        rf_state_stubFile exampleEnv_sel)
  note best = cleanup_best_effort [where e = exampleEnv and p = failingCleanup
      and videoPath = "Some ?path" and path = ?path and buffer = "''webm-bytes''"
      and uploaded = "stubFile ''PROCESSING''" and n = 1 and f = ?f
      and answer = "''A cat runs.''" and name = "''files/abc''" and d = "\<lambda>name. None"]
  from best [THEN conjunct2, THEN conjunct1, THEN mp, OF reached]
  have run: "analyzeVideoContent exampleEnv failingCleanup (Some ?path)
     = (respond 200
          (AnalysisOk \<lparr>an_text = ''A cat runs.'',
                       an_videoUri = Some ''https://provider.example/files/abc'',
                       an_timestamp = 1700000000000, an_type = Some ''initial-analysis''\<rparr>),
        [UploadFile ''webm-bytes'' ''video/webm'' ''clip.webm'', GetFile ''files/abc'',
         Sleep 2000, GetFile ''files/abc'',
         GenerateContent (Some ''test-key'') aiModel
           [FileData ''https://provider.example/files/abc'' ''video/webm'', Text analysisPrompt],
         DeleteFile ''files/abc'', Warn ''cleanup failed''])"
    by (simp add: mt dn rounds_def pollInterval_def stubFile_def exampleEnv_sel failingCleanup_sel)
  have fails: "deleteFile failingCleanup ''files/abc'' = Some ''cleanup failed''"
    by (simp add: failingCleanup_sel)
  have deleted: "DeleteFile ''files/abc''
        \<in> set (snd (analyzeVideoContent exampleEnv failingCleanup (Some ?path)))"
    by (simp add: run)
  from best [THEN conjunct2, THEN conjunct2, THEN mp, OF deleted] fails
  have warned: "status (fst (analyzeVideoContent exampleEnv failingCleanup (Some ?path))) = 200
      \<and> last (snd (analyzeVideoContent exampleEnv failingCleanup (Some ?path)))
          = Warn ''cleanup failed''"
    by blast
  from best [THEN conjunct1]
  have same: "fst (analyzeVideoContent exampleEnv (failingCleanup\<lparr>deleteFile := \<lambda>name. None\<rparr>)
             (Some ?path))
       = fst (analyzeVideoContent exampleEnv failingCleanup (Some ?path))" .
  show ?thesis
    using run fails warned same by blast
qed

section \<open>The client's upload handler\<close>

lemma uploadOkJson_text:
  "getProp (uploadOkJson info) ''success'' = Inr (JBool True)"
  "\<exists>fileJson. getProp (uploadOkJson info) ''file'' = Inr fileJson
      \<and> getProp fileJson ''analysis'' = Inr JUndefined"
  "getProp JUndefined ''text''
     = Inl (''Cannot read properties of undefined (reading '' @ quote @ ''text'' @ quote @ '')'')"
  by (simp_all add: uploadOkJson_def)

lemma uploadTry_throws:
  assumes "startsWith (bf_type file) ''video/''"
  shows "uploadTry st file (Inr \<lparr>resp_ok = True, resp_json = Inr (uploadOkJson info)\<rparr>) objectUrl stamp
     = (Some (''Cannot read properties of undefined (reading '' @ quote @ ''text'' @ quote @ '')''),
        st\<lparr>uploadStatus := ''Uploading video...'', uploadProgress := 0, isAnalyzing := True,
           selectedVideo := Some objectUrl\<rparr>)"
  using assms by (simp add: uploadTry_def Let_def uploadOkJson_def)

text \<open>
  C9. When the picked file has a video type and the server answers the upload with its
  success body \<open>{success: true, file: {filename, path, size, mimetype}}\<close>,
  handleVideoUpload throws on reading \<open>data.file.analysis.text\<close> (\<open>analysis\<close> is
  not a field of \<open>file\<close>), and ends in the state of a failed upload: the chat log is the
  single system entry with the error's message, the selected video is reset to none,
  and the progress indicators are cleared.
\<close>

theorem upload_success_shown_as_failure:
  assumes "startsWith (bf_type file) ''video/''"
    and "fetched = Inr \<lparr>resp_ok = True, resp_json = Inr (uploadOkJson info)\<rparr>"
  shows "handleVideoUpload st file fetched objectUrl stamp
     = st\<lparr>messages :=
            [\<lparr>ui_text = JStr (crossMark @ '' '' @
                 ''Cannot read properties of undefined (reading '' @ quote @ ''text'' @ quote @ '')''),
              ui_sender = ''system'', ui_timestamp = stamp\<rparr>],
          selectedVideo := None, isAnalyzing := False, uploadProgress := 0, uploadStatus := []\<rparr>"
  unfolding handleVideoUpload_def assms(2) uploadTry_throws [OF assms(1)]
  by (simp add: Let_def)

theorem upload_success_shown_as_failure_witness:
  "fst (uploadVideo exampleEnv (Some webmUpload)) = respond 200 (UploadOk storedInfo)
   \<and> startsWith (bf_type pickedVideo) ''video/''
   \<and> selectedVideo (handleVideoUpload freshClient pickedVideo
          (Inr \<lparr>resp_ok = True, resp_json = Inr (uploadOkJson storedInfo)\<rparr>)
          ''blob:http://localhost:5173/0a1b2c'' ''2024-01-01T00:00:00.000Z'') = None
   \<and> map ui_sender (messages (handleVideoUpload freshClient pickedVideo
          (Inr \<lparr>resp_ok = True, resp_json = Inr (uploadOkJson storedInfo)\<rparr>)
          ''blob:http://localhost:5173/0a1b2c'' ''2024-01-01T00:00:00.000Z'')) = [''system'']
   \<and> map ui_text (messages (handleVideoUpload freshClient pickedVideo
          (Inr \<lparr>resp_ok = True, resp_json = Inr (uploadOkJson storedInfo)\<rparr>)
          ''blob:http://localhost:5173/0a1b2c'' ''2024-01-01T00:00:00.000Z''))
       = [JStr (crossMark @ '' Cannot read properties of undefined (reading '' @ quote @ ''text'' @ quote @ '')'')]"
proof -
  have video: "startsWith (bf_type pickedVideo) ''video/''"
    by (simp add: startsWith_def pickedVideo_def)
  have served: "fst (uploadVideo exampleEnv (Some webmUpload)) = respond 200 (UploadOk storedInfo)"
    by (simp add: webmUpload_accepted storageFilename_webm webmUpload_sel exampleEnv_sel
        storedInfo_def)
  show ?thesis
    using video served
    by (simp add: upload_success_shown_as_failure [OF video refl])
qed


end
